theory Spec2Isabelle
  imports Complex_Main
begin

section \<open>Values of the host language\<close>

text \<open>
  A JavaScript string is a sequence of UTF-16 code units; \<open>length\<close> counts code units, as
  \<^verbatim>\<open>String.prototype.length\<close> does. ASCII literals are written \<open>js ''...''\<close>.
  Numbers are IEEE doubles in the source; here a value that the program keeps integral
  (ages, incomes, offsets, millisecond timestamps) is an \<open>int\<close>, and a result of
  \<^verbatim>\<open>Math.random()\<close> is a \<open>real\<close> handed to the function that draws it.
  \<open>None\<close> in an optional field or array slot stands for \<^verbatim>\<open>undefined\<close>.
\<close>

type_synonym jsstring = "nat list"

definition js :: "string \<Rightarrow> jsstring" where
  "js s = map of_char s"

datatype js_error = TypeError | NetworkError | StorageError | SyntaxError

subsection \<open>Utilities of main.js\<close>

text \<open>\<^verbatim>\<open>rand(min, max) = Math.random() * (max - min) + min\<close>, with the draw \<open>u\<close> explicit.\<close>

definition rand :: "real \<Rightarrow> real \<Rightarrow> real \<Rightarrow> real" where
  "rand u lo hi = u * (hi - lo) + lo"

definition randi :: "real \<Rightarrow> real \<Rightarrow> real \<Rightarrow> int" where
  "randi u lo hi = \<lfloor>rand u lo hi\<rfloor>"

text \<open>\<^verbatim>\<open>arr[i]\<close>: an index outside the array reads \<^verbatim>\<open>undefined\<close>.\<close>

definition at_index :: "'a list \<Rightarrow> int \<Rightarrow> 'a option" where
  "at_index arr i = (if 0 \<le> i \<and> i < int (length arr) then Some (arr ! nat i) else None)"

definition choice :: "'a list \<Rightarrow> real \<Rightarrow> 'a option" where
  "choice arr u = at_index arr (randi u 0 (real (length arr)))"

text \<open>
  \<^verbatim>\<open>weightedChoice(pairs)\<close>: the loop subtracts each weight from the roll and returns at the
  first pair where the roll has dropped to zero or below; \<open>None\<close> is the loop running off
  the end of the array.
\<close>

fun roll_loop :: "real \<Rightarrow> ('a \<times> real) list \<Rightarrow> 'a option" where
  "roll_loop roll [] = None"
| "roll_loop roll ((v, w) # ps) = (if roll - w \<le> 0 then Some v else roll_loop (roll - w) ps)"

text \<open>
  After the loop the source reads \<^verbatim>\<open>pairs[pairs.length - 1][0]\<close>; on an empty array that is
  \<^verbatim>\<open>undefined[0]\<close>, a TypeError.
\<close>

definition weightedChoice :: "real \<Rightarrow> ('a \<times> real) list \<Rightarrow> js_error + 'a" where
  "weightedChoice u pairs =
     (let total = foldl (\<lambda>s (v, w). s + w) 0 pairs;
          roll = u * total
      in case roll_loop roll pairs of
           Some v \<Rightarrow> Inr v
         | None \<Rightarrow> (case at_index pairs (int (length pairs) - 1) of
                      None \<Rightarrow> Inl TypeError
                    | Some pr \<Rightarrow> Inr (fst pr)))"

definition clamp :: "'a::linorder \<Rightarrow> 'a \<Rightarrow> 'a \<Rightarrow> 'a" where
  "clamp v a b = (if v < a then a else if v > b then b else v)"

text \<open>\<^verbatim>\<open>Math.round\<close> rounds to the nearest integer, a half towards plus infinity.\<close>

definition Math_round :: "real \<Rightarrow> int" where
  "Math_round x = \<lfloor>x + 1 / 2\<rfloor>"

section \<open>Profiles\<close>

text \<open>
  The canonical profile object. A field the object lacks is \<open>None\<close>. A coordinate is a
  string (as the generators make it, with \<^verbatim>\<open>toFixed\<close>) or a number; a numeric coordinate
  is identified with the text that number-to-string conversion prints for it.
\<close>

datatype coord = CoordStr jsstring | CoordNum jsstring

record profile =
  profile_id :: "jsstring option"
  name :: "jsstring option"
  age :: "int option"
  gender :: "jsstring option"
  job_title :: "jsstring option"
  industry :: "jsstring option"
  income_usd :: "int option"
  education :: "jsstring option"
  location_city :: "jsstring option"
  borough :: "jsstring option"
  nta :: "jsstring option"
  relationship_status :: "jsstring option"
  emotional_state :: "jsstring option"
  activity :: "jsstring option"
  interests :: "jsstring list option"
  risk_score :: "int option"
  last_active :: "jsstring option"
  coords :: "coord list option"

text \<open>A template literal prints \<^verbatim>\<open>undefined\<close> for a missing value.\<close>

definition tmpl :: "jsstring option \<Rightarrow> jsstring" where
  "tmpl x = (case x of None \<Rightarrow> js ''undefined'' | Some s \<Rightarrow> s)"

section \<open>ProfileFactory\<close>

definition firstNames :: "jsstring list" where
  "firstNames = map js [''Ava'', ''Mia'', ''Liam'', ''Noah'', ''Emma'', ''Oliver'', ''Lucas'',
     ''Amelia'', ''Ethan'', ''Sofia'', ''Zoe'', ''Kai'', ''Nina'', ''Leo'', ''Isla'', ''Maya'',
     ''Ezra'', ''Ivy'', ''Mila'', ''Aria'', ''Theo'', ''Luna'', ''Finn'', ''Mason'', ''Iris'']"

definition lastNames :: "jsstring list" where
  "lastNames = map js [''Kim'', ''Lee'', ''Nguyen'', ''Patel'', ''Garcia'', ''Chen'', ''Smith'',
     ''Khan'', ''Mori'', ''Silva'', ''Rossi'', ''Santos'', ''Brown'', ''Martin'', ''Lopez'',
     ''Wilson'', ''Dubois'', ''Kowalski'']"

definition genders :: "jsstring list" where
  "genders = map js [''female'', ''male'', ''non-binary'']"

definition industries :: "jsstring list" where
  "industries = map js [''Finance'', ''Healthcare'', ''Tech'', ''Education'', ''Retail'',
     ''Energy'', ''Gaming'', ''Media'', ''Gov'', ''Aerospace'']"

definition jobs :: "jsstring list" where
  "jobs = map js [''Engineer'', ''Designer'', ''Data Scientist'', ''Analyst'', ''PM'',
     ''Researcher'', ''Nurse'', ''Teacher'', ''Marketer'', ''Artist'', ''Security'', ''Pilot'']"

definition relationship :: "jsstring list" where
  "relationship = map js [''single'', ''dating'', ''married'', ''complicated'']"

definition education_levels :: "jsstring list" where
  "education_levels = map js [''HS'', ''Associate'', ''BSc'', ''MSc'', ''PhD'']"

definition emotional :: "(jsstring \<times> real) list" where
  "emotional =
     [(js ''focused'', 3), (js ''stressed'', 2), (js ''curious'', 3), (js ''flow'', 2),
      (js ''burnout'', 1), (js ''optimistic'', 2), (js ''calm'', 2), (js ''distracted'', 1)]"

definition cities :: "jsstring list" where
  "cities = map js [''New York'', ''Berlin'', ''Tokyo'', ''Seoul'', ''Toronto'', ''Paris'',
     ''Madrid'', ''Sydney'', ''Sao Paulo'', ''Nairobi'', ''Dublin'', ''Singapore'']"

definition activities :: "jsstring list" where
  "activities = map js [''browsing'', ''coding'', ''commuting'', ''meeting'', ''streaming'',
     ''learning'', ''exercising'', ''shopping'']"

definition income_base :: "(jsstring \<times> real \<times> real) list" where
  "income_base =
     [(js ''Tech'', 80000, 220000), (js ''Finance'', 70000, 250000),
      (js ''Healthcare'', 50000, 180000), (js ''Education'', 35000, 120000),
      (js ''Retail'', 30000, 90000), (js ''Energy'', 60000, 200000),
      (js ''Gaming'', 45000, 150000), (js ''Media'', 40000, 140000),
      (js ''Gov'', 40000, 120000), (js ''Aerospace'', 70000, 210000)]"

text \<open>
  \<^verbatim>\<open>sampleIncome(industry)\<close>: an industry outside the table (or \<^verbatim>\<open>undefined\<close>) takes the
  default range.
\<close>

definition sampleIncome :: "real \<Rightarrow> jsstring option \<Rightarrow> int" where
  "sampleIncome u ind =
     (let base = (case ind of None \<Rightarrow> (40000, 120000)
                  | Some i \<Rightarrow> (case map_of income_base i of
                                None \<Rightarrow> (40000, 120000) | Some b \<Rightarrow> b))
      in Math_round (rand u (fst base) (snd base) / 1000) * 1000)"

text \<open>
  The per-mood bias table. The lookup \<^verbatim>\<open>moodBias[mood] || 0\<close> is modelled on the table's
  own keys; names that a JavaScript object inherits from its prototype are no moods and are
  outside the model.
\<close>

definition moodBias :: "(jsstring \<times> real) list" where
  "moodBias =
     [(js ''burnout'', 15), (js ''stressed'', 10), (js ''distracted'', 8), (js ''focused'', -5),
      (js ''calm'', -5), (js ''flow'', -8), (js ''optimistic'', -3), (js ''curious'', 0)]"

definition mood_bias :: "jsstring option \<Rightarrow> real" where
  "mood_bias mood =
     (case mood of None \<Rightarrow> 0
      | Some m \<Rightarrow> (case map_of moodBias m of None \<Rightarrow> 0 | Some b \<Rightarrow> b))"

definition riskFromIncomeAndMood :: "real \<Rightarrow> int \<Rightarrow> jsstring option \<Rightarrow> int" where
  "riskFromIncomeAndMood u income mood =
     (let r0 = rand u 10 90;
          r1 = (if income > 150000 then r0 - 10 else r0);
          r2 = (if income < 40000 then r1 + 10 else r1);
          r3 = r2 + mood_bias mood
      in clamp (Math_round r3) 0 100)"

definition interests_pool :: "jsstring list" where
  "interests_pool = map js [''climbing'', ''reading'', ''ai'', ''music'', ''crypto'',
     ''gardening'', ''photography'', ''biking'', ''chess'', ''vr'', ''cooking'', ''yoga'',
     ''travel'', ''gaming'']"

text \<open>\<^verbatim>\<open>arr.slice(0, n)\<close>; a negative \<open>n\<close> counts from the end.\<close>

definition slice0 :: "'a list \<Rightarrow> int \<Rightarrow> 'a list" where
  "slice0 xs n = (if 0 \<le> n then take (nat n) xs else take (length xs - nat (- n)) xs)"

text \<open>
  What one call of \<^verbatim>\<open>generate()\<close> takes from its surroundings: the results of its
  \<^verbatim>\<open>Math.random()\<close> calls, one field per call site, and three values that the host
  computes: the text \<^verbatim>\<open>makeId()\<close> returns, the order in which
  \<^verbatim>\<open>[...pool].sort(() => Math.random() - 0.5)\<close> leaves the interests pool, and the ISO text
  of the last-active time.
\<close>

record draws =
  u_industry :: real
  u_job :: real
  u_mood :: real
  u_age :: real
  u_income :: real
  u_risk :: real
  u_first :: real
  u_last :: real
  u_gender :: real
  u_education :: real
  u_city :: real
  u_relationship :: real
  u_activity :: real
  u_interests :: real
  host_id :: jsstring
  host_shuffled :: "jsstring list"
  host_last_active :: jsstring

definition interestsSet :: "draws \<Rightarrow> jsstring list" where
  "interestsSet d = slice0 (host_shuffled d) (randi (u_interests d) 2 6)"

definition generate :: "draws \<Rightarrow> js_error + profile" where
  "generate d =
     (let ind = choice industries (u_industry d);
          job = choice jobs (u_job d)
      in case weightedChoice (u_mood d) emotional of
           Inl e \<Rightarrow> Inl e
         | Inr mood \<Rightarrow>
            (let age = randi (u_age d) 18 70;
                 inc = sampleIncome (u_income d) ind;
                 risk = riskFromIncomeAndMood (u_risk d) inc (Some mood)
             in Inr \<lparr> profile_id = Some (host_id d),
                      name = Some (tmpl (choice firstNames (u_first d)) @ js '' ''
                                   @ tmpl (choice lastNames (u_last d))),
                      age = Some age,
                      gender = choice genders (u_gender d),
                      job_title = job,
                      industry = ind,
                      income_usd = Some inc,
                      education = choice education_levels (u_education d),
                      location_city = choice cities (u_city d),
                      borough = None,
                      nta = None,
                      relationship_status = choice relationship (u_relationship d),
                      emotional_state = Some mood,
                      activity = choice activities (u_activity d),
                      interests = Some (interestsSet d),
                      risk_score = Some risk,
                      last_active = Some (host_last_active d),
                      coords = None \<rparr>))"

section \<open>Risk bias of data/nyc.js\<close>

definition nyc_moodBias :: "(jsstring \<times> real) list" where
  "nyc_moodBias =
     [(js ''burnout'', 15), (js ''stressed'', 10), (js ''distracted'', 8), (js ''focused'', -5),
      (js ''calm'', -5), (js ''flow'', -8), (js ''optimistic'', -3), (js ''curious'', 0)]"

text \<open>
  \<^verbatim>\<open>biasRisk(income, mood)\<close>; the income of a row may be any number, the mood is what
  \<^verbatim>\<open>choice(EMOTIONS)\<close> gave.
\<close>

definition biasRisk :: "real \<Rightarrow> real \<Rightarrow> jsstring option \<Rightarrow> int" where
  "biasRisk u income mood =
     (let r0 = rand u 10 90;
          r1 = (if income > 150000 then r0 - 10 else r0);
          r2 = (if income < 40000 then r1 + 10 else r1);
          r3 = r2 + (case mood of None \<Rightarrow> 0
                     | Some m \<Rightarrow> (case map_of nyc_moodBias m of None \<Rightarrow> 0 | Some b \<Rightarrow> b))
      in max 0 (min 100 (Math_round r3)))"

section \<open>Number and string conversions of the host\<close>

text \<open>
  Number-to-string conversion of an integer (below \<open>10^21\<close> in magnitude, where the host
  prints plain decimal digits).
\<close>

fun digits :: "nat \<Rightarrow> jsstring" where
  "digits n = (if n < 10 then [48 + n] else digits (n div 10) @ [48 + n mod 10])"

declare digits.simps [simp del]

definition show_int :: "int \<Rightarrow> jsstring" where
  "show_int i = (if i < 0 then js ''-'' @ digits (nat (- i)) else digits (nat i))"

text \<open>
  \<^verbatim>\<open>x.toFixed(f)\<close> for \<open>|x| < 10^21\<close>: the sign, then the integer \<open>n\<close> nearest to
  \<open>|x| * 10^f\<close> (the larger one on a tie), padded with zeros to \<open>f + 1\<close> digits, with the
  point before the last \<open>f\<close> digits.
\<close>

definition toFixed :: "real \<Rightarrow> nat \<Rightarrow> jsstring" where
  "toFixed x f =
     (let s = (if x < 0 then js ''-'' else []);
          n = nat \<lfloor>\<bar>x\<bar> * 10 ^ f + 1 / 2\<rfloor>;
          m = digits n;
          z = replicate (f + 1 - length m) 48 @ m
      in if f = 0 then s @ m
         else s @ take (length z - f) z @ js ''.'' @ drop (length z - f) z)"

text \<open>
  \<^verbatim>\<open>c.toUpperCase()\<close> of one code unit. Only the ASCII letters are mapped; the host's
  Unicode case tables for other code units are not modelled.
\<close>

definition toUpperCase1 :: "nat \<Rightarrow> jsstring" where
  "toUpperCase1 c = (if 97 \<le> c \<and> c \<le> 122 then [c - 32] else [c])"

text \<open>\<^verbatim>\<open>x || d\<close> for a string or missing \<open>x\<close>: the empty string and \<^verbatim>\<open>undefined\<close> are falsy.\<close>

definition or_str :: "jsstring option \<Rightarrow> jsstring \<Rightarrow> jsstring" where
  "or_str x d = (case x of None \<Rightarrow> d | Some s \<Rightarrow> if s = [] then d else s)"

text \<open>\<^verbatim>\<open>x || d\<close> for a number or missing \<open>x\<close>: zero and \<^verbatim>\<open>undefined\<close> are falsy.\<close>

definition or_num :: "int option \<Rightarrow> int \<Rightarrow> int" where
  "or_num x d = (case x of None \<Rightarrow> d | Some n \<Rightarrow> if n = 0 then d else n)"

text \<open>\<^verbatim>\<open>${x || '?'}\<close> for a number or missing \<open>x\<close>.\<close>

definition num_or_text :: "int option \<Rightarrow> jsstring \<Rightarrow> jsstring" where
  "num_or_text x d = (case x of None \<Rightarrow> d | Some n \<Rightarrow> if n = 0 then d else show_int n)"

text \<open>
  \<^verbatim>\<open>formatMoneyUSD(n)\<close> for an integral \<open>n\<close>. The regular expression puts a comma before
  every group of three digits counted from the end; \<open>group3\<close> does so on the reversed digits.
\<close>

fun group3 :: "jsstring \<Rightarrow> jsstring" where
  "group3 (a # b # c # d # rest) = a # b # c # 44 # group3 (d # rest)"
| "group3 ds = ds"

definition formatMoneyUSD :: "int \<Rightarrow> jsstring" where
  "formatMoneyUSD n =
     (let sign = (if n < 0 then js ''-'' else []);
          x = \<bar>n\<bar>
      in sign @ js ''$'' @ rev (group3 (rev (show_int x))))"

subsection \<open>JSON text\<close>

definition is_high_surrogate :: "nat \<Rightarrow> bool" where
  "is_high_surrogate c = (55296 \<le> c \<and> c < 56320)"

definition is_low_surrogate :: "nat \<Rightarrow> bool" where
  "is_low_surrogate c = (56320 \<le> c \<and> c < 57344)"

definition hex_digit :: "nat \<Rightarrow> nat" where
  "hex_digit d = (if d < 10 then 48 + d else 87 + d)"

text \<open>The escape \<^verbatim>\<open>\uXXXX\<close> with four lower-case hexadecimal digits.\<close>

definition unicode_escape :: "nat \<Rightarrow> jsstring" where
  "unicode_escape c =
     [92, 117, hex_digit (c div 4096 mod 16), hex_digit (c div 256 mod 16),
      hex_digit (c div 16 mod 16), hex_digit (c mod 16)]"

text \<open>
  The body of a JSON string literal as \<^verbatim>\<open>JSON.stringify\<close> writes it: the quote and the
  backslash (code units 34 and 92) and the control characters are escaped, a surrogate
  pair is copied and a lone surrogate is escaped.
\<close>

fun json_escape :: "jsstring \<Rightarrow> jsstring" where
  "json_escape [] = []"
| "json_escape (c # cs) =
    (if c = 34 then [92, 34] @ json_escape cs
     else if c = 92 then [92, 92] @ json_escape cs
     else if c = 8 then [92, 98] @ json_escape cs
     else if c = 9 then [92, 116] @ json_escape cs
     else if c = 10 then [92, 110] @ json_escape cs
     else if c = 12 then [92, 102] @ json_escape cs
     else if c = 13 then [92, 114] @ json_escape cs
     else if c < 32 then unicode_escape c @ json_escape cs
     else if is_high_surrogate c then
       (case cs of
          [] \<Rightarrow> unicode_escape c
        | d # ds \<Rightarrow> if is_low_surrogate d then c # d # json_escape ds
                    else unicode_escape c @ json_escape cs)
     else if is_low_surrogate c then unicode_escape c @ json_escape cs
     else c # json_escape cs)"

definition json_string :: "jsstring \<Rightarrow> jsstring" where
  "json_string s = [34] @ json_escape s @ [34]"

definition json_coord :: "coord \<Rightarrow> jsstring" where
  "json_coord c = (case c of CoordStr s \<Rightarrow> json_string s | CoordNum t \<Rightarrow> t)"

fun join_commas :: "jsstring list \<Rightarrow> jsstring" where
  "join_commas [] = []"
| "join_commas [x] = x"
| "join_commas (x # y # ys) = x @ [44] @ join_commas (y # ys)"

definition json_array :: "coord list \<Rightarrow> jsstring" where
  "json_array cs = js ''['' @ join_commas (map json_coord cs) @ js '']''"

section \<open>StringPainter\<close>

datatype style = Json | Kv | Code

text \<open>
  \<^verbatim>\<open>(p.id || '0000').replace(/[^a-fA-F0-9]/g, '').slice(-4) || 'A1C3'\<close>: the hexadecimal
  digits of the identifier, the last four of them, and a fixed text when there is none.
\<close>

definition is_hex :: "nat \<Rightarrow> bool" where
  "is_hex c = ((97 \<le> c \<and> c \<le> 102) \<or> (65 \<le> c \<and> c \<le> 70) \<or> (48 \<le> c \<and> c \<le> 57))"

definition idHex :: "profile \<Rightarrow> jsstring" where
  "idHex p =
     (let h = filter is_hex (or_str (profile_id p) (js ''0000''));
          t = drop (length h - 4) h
      in if t = [] then js ''A1C3'' else t)"

text \<open>
  \<^verbatim>\<open>`${p.job_title || 'Agent'}+${(p.gender||'U')[0].toUpperCase()}+${p.age||'?'}`\<close>
\<close>

definition profileLabel :: "profile \<Rightarrow> jsstring" where
  "profileLabel p =
     or_str (job_title p) (js ''Agent'') @ js ''+''
     @ concat (map toUpperCase1 (take 1 (or_str (gender p) (js ''U'')))) @ js ''+''
     @ num_or_text (age p) (js ''?'')"

text \<open>
  \<^verbatim>\<open>buildString(p, mode)\<close>. \<open>rnd k\<close> is the result of the \<open>k\<close>-th call of
  \<^verbatim>\<open>Math.random()\<close> that the function makes; only the default (json) style draws, and
  only when the profile has no coordinates. In the json style the label is written with a
  trailing line feed, and every line feed is then removed from it.
\<close>

definition buildString :: "(nat \<Rightarrow> real) \<Rightarrow> profile \<Rightarrow> style \<Rightarrow> jsstring" where
  \<open>buildString rnd p mode =
     (if mode = Kv then
        js ''profile='' @ profileLabel p
        @ js '' | nta='' @ or_str (nta p) []
        @ js '' | mood='' @ or_str (emotional_state p) []
        @ js '' | income='' @ formatMoneyUSD (or_num (income_usd p) 0)
        @ js '' | risk='' @ (case risk_score p of None \<Rightarrow> [] | Some r \<Rightarrow> show_int r)
      else if mode = Code then
        js ''let p=Agent( id:0x'' @ idHex p
        @ js '', age:'' @ num_or_text (age p) (js ''?'')
        @ js '', job:"'' @ or_str (job_title p) (js ''Worker'')
        @ js ''", mood:"'' @ or_str (emotional_state p) []
        @ js ''", nta:"'' @ or_str (nta p) []
        @ js ''", income:'' @ show_int (or_num (income_usd p) 0)
        @ js '' );''
      else
        (let label = profileLabel p @ js ''\<newline>'';
             cs = (case coords p of
                     Some c \<Rightarrow> c
                   | None \<Rightarrow> [CoordStr (toFixed (rand (rnd 0) 100 600) 2),
                              CoordStr (toFixed (rand (rnd 1) 100 400) 2),
                              CoordStr (toFixed (rand (rnd 2) 200 800) 1)])
         in js ''{"profile":'' @ json_string (filter (\<lambda>c. c \<noteq> 10) label)
            @ js '',"nta":'' @ json_string (or_str (nta p) [])
            @ js '',"income":'' @ show_int (or_num (income_usd p) 0)
            @ js '',"mood":'' @ json_string (or_str (emotional_state p) [])
            @ js '',"coords":'' @ json_array cs
            @ js ''}''))\<close>

text \<open>
  \<^verbatim>\<open>str.indexOf(k)\<close>: the offset of the first occurrence of \<open>k\<close>, or \<open>-1\<close>.
\<close>

fun indexOf :: "'a list \<Rightarrow> 'a list \<Rightarrow> int" where
  "indexOf [] k = (if k = [] then 0 else - 1)"
| "indexOf (c # cs) k =
     (if take (length k) (c # cs) = k then 0
      else (let r = indexOf cs k in if r < 0 then - 1 else r + 1))"

definition keys :: "jsstring list" where
  "keys = map js [''profile'', ''nta'', ''income'', ''mood'', ''risk'']"

definition add_key :: "jsstring \<Rightarrow> int set \<Rightarrow> jsstring \<Rightarrow> int set" where
  "add_key str pos k =
     (let idx = indexOf str k
      in if idx \<ge> 0 then pos \<union> set (map (\<lambda>i. idx + int i) [0..<length k]) else pos)"

definition computeKeyPositions :: "jsstring \<Rightarrow> int set" where
  "computeKeyPositions str = foldl (add_key str) {} keys"

record painter =
  profile :: profile
  mode :: style
  string :: jsstring
  keyCharPositions :: "int set"

text \<open>The constructor \<^verbatim>\<open>new StringPainter(profile, mode)\<close>.\<close>

definition StringPainter :: "(nat \<Rightarrow> real) \<Rightarrow> profile \<Rightarrow> style \<Rightarrow> painter" where
  "StringPainter rnd p m =
     (let s = buildString rnd p m
      in \<lparr> profile = p, mode = m, string = s, keyCharPositions = computeKeyPositions s \<rparr>)"

text \<open>
  \<^verbatim>\<open>Array.from(str)\<close> splits a string into its code points: a surrogate pair is one element.
\<close>

fun code_points :: "jsstring \<Rightarrow> jsstring list" where
  "code_points [] = []"
| "code_points [c] = [[c]]"
| "code_points (c # d # cs) =
     (if is_high_surrogate c \<and> is_low_surrogate d then [c, d] # code_points cs
      else [c] # code_points (d # cs))"

text \<open>
  The filler alphabet: five half-width katakana (U+FF71 to U+FF75) and
  \<^verbatim>\<open>0123456789<>[]{}-=+*/$%\<close>.
\<close>

definition filler :: jsstring where
  "filler = [65393, 65394, 65395, 65396, 65397] @ js ''0123456789<>[]{}-=+*/$%''"

definition pad :: nat where
  "pad = 40"

text \<open>
  \<^verbatim>\<open>buildGlyphStream()\<close>: forty filler picks, the code points of the string, forty filler
  picks. \<open>rnd k\<close> is the \<open>k\<close>-th draw of the call; an element is a one-character string,
  or \<open>None\<close> where the pick read outside the alphabet.
\<close>

definition filler_pick :: "real \<Rightarrow> jsstring option" where
  "filler_pick u = map_option (\<lambda>c. [c]) (at_index filler (randi u 0 (real (length filler))))"

definition buildGlyphStream :: "(nat \<Rightarrow> real) \<Rightarrow> painter \<Rightarrow> jsstring option list" where
  "buildGlyphStream rnd pt =
     (let core = map Some (code_points (string pt));
          left = map (\<lambda>k. filler_pick (rnd k)) [0..<pad];
          right = map (\<lambda>k. filler_pick (rnd (pad + k))) [0..<pad]
      in left @ core @ right)"

text \<open>
  The remainder operator \<^verbatim>\<open>a % b\<close> on integers: the result has the sign of the dividend;
  \<open>None\<close> is \<^verbatim>\<open>NaN\<close>, the result for a zero divisor.
\<close>

definition js_rem :: "int \<Rightarrow> int \<Rightarrow> int option" where
  "js_rem a b = (if b = 0 then None else Some (sgn a * (\<bar>a\<bar> mod \<bar>b\<bar>)))"

text \<open>
  \<^verbatim>\<open>isKeyChar(bufferIndex)\<close>:
  \<^verbatim>\<open>keyCharPositions.has((bufferIndex - 40 + string.length * 10000) % string.length)\<close>.
  A set of offsets never contains \<^verbatim>\<open>NaN\<close>.
\<close>

definition isKeyChar :: "painter \<Rightarrow> int \<Rightarrow> bool" where
  "isKeyChar pt bufferIndex =
     (let len = int (length (string pt))
      in case js_rem (bufferIndex - 40 + len * 10000) len of
           None \<Rightarrow> False
         | Some i \<Rightarrow> i \<in> keyCharPositions pt)"

text \<open>The object \<^verbatim>\<open>{}\<close>: a profile with no field at all.\<close>

definition bare_profile :: profile where
  "bare_profile =
     \<lparr> profile_id = None, name = None, age = None, gender = None, job_title = None,
       industry = None, income_usd = None, education = None, location_city = None,
       borough = None, nta = None, relationship_status = None, emotional_state = None,
       activity = None, interests = None, risk_score = None, last_active = None,
       coords = None \<rparr>"

text \<open>The object \<^verbatim>\<open>{}\<close> with the numeric coordinates of the first embedded sample.\<close>

definition coords_only_profile :: profile where
  "coords_only_profile =
     bare_profile \<lparr> coords := Some [CoordNum (js ''358.46''), CoordNum (js ''155.65''),
                                      CoordNum (js ''411'')] \<rparr>"

section \<open>MatrixRain: the number of glyph columns\<close>

text \<open>
  The column count is computed in double arithmetic. \<open>fl\<close> stands for the rounding of an
  exact result to a double; it is a parameter, and the identity gives exact arithmetic.
  \<open>w\<close> is \<^verbatim>\<open>canvas.clientWidth\<close>, a non-negative integer, so \<^verbatim>\<open>w / size\<close> with
  \<open>size = 16\<close> is exact. The literal \<^verbatim>\<open>0.7\<close> of the source is the double \<open>fl 0.7\<close>, and
  the density scale is the value of a double. \<^verbatim>\<open>resetColumns\<close> multiplies by
  \<^verbatim>\<open>density = 0.7 * densityScale\<close>; \<^verbatim>\<open>update\<close> computes
  \<^verbatim>\<open>(w / size) * 0.7 * densityScale\<close> from the left.
\<close>

definition glyphSize :: real where
  "glyphSize = 16"

definition numCols :: "(real \<Rightarrow> real) \<Rightarrow> real \<Rightarrow> int \<Rightarrow> nat \<Rightarrow> int" where
  "numCols fl densityScale maxColumns w =
     (let size = glyphSize;
          density = fl (fl 0.7 * densityScale)
      in clamp (max 8 \<lfloor>fl (fl (real w / size) * density)\<rfloor>) 8 maxColumns)"

definition desiredCols :: "(real \<Rightarrow> real) \<Rightarrow> real \<Rightarrow> int \<Rightarrow> nat \<Rightarrow> int" where
  "desiredCols fl densityScale maxColumns w =
     (let size = glyphSize
      in clamp (max 8 \<lfloor>fl (fl (fl (real w / size) * fl 0.7) * densityScale)\<rfloor>) 8 maxColumns)"

section \<open>DataSource\<close>

text \<open>
  The state of the closure: the pool \<^verbatim>\<open>cachedProfiles\<close>, and two counters that make the
  effects of a call visible: how many times \<^verbatim>\<open>generate()\<close> has run, and how many refresh
  requests have been handed to \<^verbatim>\<open>NYCProfileService.fetchProfiles\<close>.
\<close>

record data_source =
  cachedProfiles :: "profile list"
  generated :: nat
  refreshes :: nat

fun sequence :: "(js_error + 'a) list \<Rightarrow> js_error + 'a list" where
  "sequence [] = Inr []"
| "sequence (x # xs) =
     (case x of
        Inl e \<Rightarrow> Inl e
      | Inr v \<Rightarrow> (case sequence xs of Inl e \<Rightarrow> Inl e | Inr vs \<Rightarrow> Inr (v # vs)))"

text \<open>
  \<^verbatim>\<open>generateFakeBatch(n)\<close>; \<open>supply k\<close> holds the draws of the \<open>k\<close>-th run of
  \<^verbatim>\<open>generate()\<close>, and \<open>start\<close> runs have happened before.
\<close>

definition generateFakeBatch :: "(nat \<Rightarrow> draws) \<Rightarrow> nat \<Rightarrow> nat \<Rightarrow> js_error + profile list" where
  "generateFakeBatch supply start n = sequence (map (\<lambda>i. generate (supply (start + i))) [0..<n])"

text \<open>
  \<^verbatim>\<open>takeLoop(arr, n)\<close> pushes \<^verbatim>\<open>arr[i % arr.length]\<close>; on an empty array the index is
  \<^verbatim>\<open>NaN\<close> and the element \<^verbatim>\<open>undefined\<close>.
\<close>

definition takeLoop :: "'a list \<Rightarrow> nat \<Rightarrow> 'a option list" where
  "takeLoop arr n =
     map (\<lambda>i. case js_rem (int i) (int (length arr)) of
                 None \<Rightarrow> None
               | Some j \<Rightarrow> at_index arr j) [0..<n]"

text \<open>
  \<^verbatim>\<open>getProfiles(wantCount)\<close>. \<open>nyc\<close> is the test
  \<^verbatim>\<open>CONFIG.source === 'nyc' && typeof NYCProfileService !== 'undefined'\<close>. The refresh that
  branch starts is asynchronous: its callback runs after \<open>getProfiles\<close> has returned, and
  is \<open>refresh_resolved\<close> below.
\<close>

definition getProfiles ::
  "bool \<Rightarrow> (nat \<Rightarrow> draws) \<Rightarrow> data_source \<Rightarrow> nat
     \<Rightarrow> js_error + (profile option list \<times> data_source)" where
  "getProfiles nyc supply ds wantCount =
     (if nyc then
        (case (if length (cachedProfiles ds) = 0
               then (case generateFakeBatch supply (generated ds) wantCount of
                       Inl e \<Rightarrow> Inl e
                     | Inr batch \<Rightarrow> Inr (ds \<lparr> cachedProfiles := batch,
                                              generated := generated ds + wantCount \<rparr>))
               else Inr ds) of
           Inl e \<Rightarrow> Inl e
         | Inr ds1 \<Rightarrow>
            (let ds2 = ds1 \<lparr> refreshes := refreshes ds1 + 1 \<rparr>
             in Inr (takeLoop (cachedProfiles ds2) wantCount, ds2)))
      else
        (case (if length (cachedProfiles ds) < wantCount
               then (case generateFakeBatch supply (generated ds) (max wantCount 128) of
                       Inl e \<Rightarrow> Inl e
                     | Inr batch \<Rightarrow> Inr (ds \<lparr> cachedProfiles := batch,
                                              generated := generated ds + max wantCount 128 \<rparr>))
               else Inr ds) of
           Inl e \<Rightarrow> Inl e
         | Inr ds1 \<Rightarrow> Inr (takeLoop (cachedProfiles ds1) wantCount, ds1)))"

text \<open>
  The callback of the refresh:
  \<^verbatim>\<open>list => { if (Array.isArray(list) && list.length) cachedProfiles = list; }\<close>.
\<close>

definition refresh_resolved :: "profile list \<Rightarrow> data_source \<Rightarrow> data_source" where
  "refresh_resolved list ds = (if list \<noteq> [] then ds \<lparr> cachedProfiles := list \<rparr> else ds)"

text \<open>Draws for one run of \<^verbatim>\<open>generate()\<close>, used in examples: every \<^verbatim>\<open>Math.random()\<close> is 0.\<close>

definition example_draws :: draws where
  "example_draws =
     \<lparr> u_industry = 0, u_job = 0, u_mood = 0, u_age = 0, u_income = 0, u_risk = 0,
       u_first = 0, u_last = 0, u_gender = 0, u_education = 0, u_city = 0,
       u_relationship = 0, u_activity = 0, u_interests = 0,
       host_id = js ''k3x9ab-1f2c'', host_shuffled = interests_pool,
       host_last_active = js ''2025-08-11T00:00:00.000Z'' \<rparr>"

section \<open>NYCProfileService (data/nyc.js)\<close>

definition ONE_HOUR_MS :: int where
  "ONE_HOUR_MS = 60 * 60 * 1000"

text \<open>
  A text kept in \<^verbatim>\<open>localStorage\<close>, represented by what \<^verbatim>\<open>JSON.parse\<close> makes of it:
  \<open>Entry t v\<close> is the text \<^verbatim>\<open>JSON.stringify({ t, v })\<close> of a timestamp and a profile list
  (a profile survives the round trip through JSON unchanged); \<open>Unparsable\<close> is any text
  on which \<^verbatim>\<open>JSON.parse\<close> or the destructuring raises.
\<close>

datatype stored = Unparsable | Entry int "profile list"

text \<open>The query parameters \<^verbatim>\<open>$limit\<close> and \<^verbatim>\<open>$where\<close> handed to \<^verbatim>\<open>sodaFetch\<close>.\<close>

record soda_params =
  param_limit :: jsstring
  param_where :: "jsstring option"

text \<open>
  The surroundings of the service: \<^verbatim>\<open>Date.now()\<close>, the content of \<^verbatim>\<open>localStorage\<close>,
  whether reading from it and writing to it succeed (either may raise: storage disabled,
  quota exceeded), and the requests sent to the network so far.
\<close>

record nyc_env =
  clock :: int
  items :: "jsstring \<Rightarrow> stored option"
  can_read :: bool
  can_write :: bool
  sent :: "soda_params list"

definition getItem :: "nyc_env \<Rightarrow> jsstring \<Rightarrow> js_error + stored option" where
  "getItem env key = (if can_read env then Inr (items env key) else Inl StorageError)"

definition setItem :: "nyc_env \<Rightarrow> jsstring \<Rightarrow> stored \<Rightarrow> js_error + nyc_env" where
  "setItem env key raw =
     (if can_write env then Inr (env \<lparr> items := (items env)(key \<mapsto> raw) \<rparr>)
      else Inl StorageError)"

definition JSON_parse :: "stored \<Rightarrow> js_error + int \<times> profile list" where
  "JSON_parse raw = (case raw of Unparsable \<Rightarrow> Inl SyntaxError | Entry t v \<Rightarrow> Inr (t, v))"

text \<open>
  \<^verbatim>\<open>getCache(key)\<close>: everything is inside \<^verbatim>\<open>try { ... } catch { return null; }\<close>; \<open>None\<close>
  is \<^verbatim>\<open>null\<close>.
\<close>

definition getCache :: "nyc_env \<Rightarrow> jsstring \<Rightarrow> profile list option" where
  "getCache env key =
     (case getItem env key of
        Inl e \<Rightarrow> None
      | Inr None \<Rightarrow> None
      | Inr (Some raw) \<Rightarrow>
          (case JSON_parse raw of
             Inl e \<Rightarrow> None
           | Inr (t, v) \<Rightarrow> if clock env - t > ONE_HOUR_MS then None else Some v))"

text \<open>\<^verbatim>\<open>setCache(key, v)\<close>: \<^verbatim>\<open>try { localStorage.setItem(...) } catch {}\<close>.\<close>

definition setCache :: "nyc_env \<Rightarrow> jsstring \<Rightarrow> profile list \<Rightarrow> nyc_env" where
  "setCache env key v =
     (case setItem env key (Entry (clock env) v) of Inl e \<Rightarrow> env | Inr env' \<Rightarrow> env')"

text \<open>
  The embedded samples. \<open>loaded\<close> is the text of \<^verbatim>\<open>new Date().toISOString()\<close> at the time
  the script was loaded.
\<close>

definition SAMPLE_PROFILES :: "jsstring \<Rightarrow> profile list" where
  "SAMPLE_PROFILES loaded =
     [\<lparr> profile_id = Some (js ''smpl-1''), name = Some (js ''Sample A''), age = Some 24,
        gender = Some (js ''female''), job_title = Some (js ''Student''),
        industry = Some (js ''Education''), income_usd = Some 42000,
        education = Some (js ''BSc''), location_city = Some (js ''New York''),
        borough = Some (js ''Manhattan''), nta = Some (js ''MN013''),
        relationship_status = Some (js ''single''), emotional_state = Some (js ''curious''),
        activity = Some (js ''learning''), interests = Some [js ''music'', js ''ai''],
        risk_score = Some 37, last_active = Some loaded,
        coords = Some [CoordNum (js ''358.46''), CoordNum (js ''155.65''),
                       CoordNum (js ''411'')] \<rparr>,
      \<lparr> profile_id = Some (js ''smpl-2''), name = Some (js ''Sample B''), age = Some 35,
        gender = Some (js ''male''), job_title = Some (js ''Analyst''),
        industry = Some (js ''Finance''), income_usd = Some 95000,
        education = Some (js ''MSc''), location_city = Some (js ''New York''),
        borough = Some (js ''Brooklyn''), nta = Some (js ''BK032''),
        relationship_status = Some (js ''married''), emotional_state = Some (js ''focused''),
        activity = Some (js ''commuting''), interests = Some [js ''chess'', js ''biking''],
        risk_score = Some 29, last_active = Some loaded,
        coords = Some [CoordNum (js ''402.12''), CoordNum (js ''210.22''),
                       CoordNum (js ''512'')] \<rparr>]"

text \<open>
  The argument of \<^verbatim>\<open>fetchProfiles\<close>, an object whose fields may be missing:
  \<^verbatim>\<open>const { borough = '', nta = '', limit = 200 } = opts\<close>.
\<close>

record fetch_opts =
  opt_borough :: "jsstring option"
  opt_nta :: "jsstring option"
  opt_limit :: "int option"

definition borough_of :: "fetch_opts \<Rightarrow> jsstring" where
  "borough_of opts = (case opt_borough opts of None \<Rightarrow> [] | Some b \<Rightarrow> b)"

definition nta_of :: "fetch_opts \<Rightarrow> jsstring" where
  "nta_of opts = (case opt_nta opts of None \<Rightarrow> [] | Some n \<Rightarrow> n)"

definition limit_of :: "fetch_opts \<Rightarrow> int" where
  "limit_of opts = (case opt_limit opts of None \<Rightarrow> 200 | Some l \<Rightarrow> l)"

text \<open>\<^verbatim>\<open>`nyc_profiles:${borough}:${nta}:${limit}`\<close>\<close>

definition cacheKey :: "fetch_opts \<Rightarrow> jsstring" where
  "cacheKey opts =
     js ''nyc_profiles:'' @ borough_of opts @ js '':'' @ nta_of opts @ js '':''
     @ show_int (limit_of opts)"

text \<open>\<^verbatim>\<open>s.replace(/'/g, "''")\<close>: every apostrophe (code unit 39) is doubled.\<close>

definition double_quotes :: "jsstring \<Rightarrow> jsstring" where
  "double_quotes s = concat (map (\<lambda>c. if c = 39 then [39, 39] else [c]) s)"

fun join_AND :: "jsstring list \<Rightarrow> jsstring" where
  "join_AND [] = []"
| "join_AND [x] = x"
| "join_AND (x # y # ys) = x @ js '' AND '' @ join_AND (y # ys)"

definition where_clauses :: "fetch_opts \<Rightarrow> jsstring list" where
  "where_clauses opts =
     (if borough_of opts \<noteq> []
      then [js ''upper(borough) = upper('' @ [39] @ double_quotes (borough_of opts) @ [39]
            @ js '')'']
      else [])
     @ (if nta_of opts \<noteq> []
        then [js ''upper(nta_code) = upper('' @ [39] @ double_quotes (nta_of opts) @ [39]
              @ js '')'']
        else [])"

definition query_params :: "fetch_opts \<Rightarrow> soda_params" where
  "query_params opts =
     \<lparr> param_limit = show_int (min (max (limit_of opts) 1) 500),
       param_where = (if where_clauses opts \<noteq> [] then Some (join_AND (where_clauses opts))
                      else None) \<rparr>"

text \<open>
  What comes back from the network: \<open>Rejected\<close> when \<^verbatim>\<open>sodaFetch\<close> raises (the request
  fails, the status is not ok, or the body is no JSON), \<open>Body_other\<close> for a JSON value that
  is not an array, \<open>Body_rows\<close> for an array of rows.
\<close>

datatype 'row response = Rejected | Body_other | Body_rows "'row list"

text \<open>
  \<^verbatim>\<open>await sodaFetch(DATASET_IDS.DEMOGRAPHICS_BY_NTA, params)\<close>. The network is the
  parameter \<open>server\<close>: for a request sent at a given time it gives the response and the
  time that passes until it arrives. The request is recorded and the clock advanced.
\<close>

definition sodaFetch ::
  "(int \<Rightarrow> soda_params \<Rightarrow> 'row response \<times> int) \<Rightarrow> nyc_env \<Rightarrow> soda_params
     \<Rightarrow> (js_error + 'row list option) \<times> nyc_env" where
  "sodaFetch server env params =
     (let answer = server (clock env) params;
          env1 = env \<lparr> clock := clock env + snd answer, sent := sent env @ [params] \<rparr>
      in (case fst answer of
            Rejected \<Rightarrow> Inl NetworkError
          | Body_other \<Rightarrow> Inr None
          | Body_rows rows \<Rightarrow> Inr (Some rows), env1))"

text \<open>
  \<^verbatim>\<open>fetchProfiles(opts)\<close>. The first component of the result is what the returned promise
  settles with: \<open>Inl\<close> a rejection, \<open>Inr\<close> the list. The row mapper
  \<^verbatim>\<open>synthesizeProfileFromDemographics\<close> is the parameter \<open>synth\<close>, with the draws and the
  clock readings it makes; \<open>Inl\<close> is the mapper raising (a \<^verbatim>\<open>null\<close> row). Work that other
  callers interleave while the request is awaited is not modelled.
\<close>

definition fetchProfiles ::
  "(int \<Rightarrow> soda_params \<Rightarrow> 'row response \<times> int) \<Rightarrow> ('row \<Rightarrow> js_error + profile) \<Rightarrow> jsstring
     \<Rightarrow> nyc_env \<Rightarrow> fetch_opts \<Rightarrow> (js_error + profile list) \<times> nyc_env" where
  "fetchProfiles server synth loaded env opts =
     (case getCache env (cacheKey opts) of
        Some cached \<Rightarrow> (Inr cached, env)
      | None \<Rightarrow>
          (let fetched = sodaFetch server env (query_params opts);
               env1 = snd fetched
           in case fst fetched of
                Inl err \<Rightarrow> (Inr (SAMPLE_PROFILES loaded), env1)
              | Inr rows \<Rightarrow>
                  (case (case rows of None \<Rightarrow> Inr [] | Some rs \<Rightarrow> sequence (map synth rs)) of
                     Inl err \<Rightarrow> (Inr (SAMPLE_PROFILES loaded), env1)
                   | Inr mapped \<Rightarrow>
                       (let profiles = (if mapped = [] then SAMPLE_PROFILES loaded else mapped)
                        in (Inr profiles, setCache env1 (cacheKey opts) profiles)))))"

text \<open>Surroundings and arguments used in examples.\<close>

definition empty_env :: nyc_env where
  "empty_env = \<lparr> clock = 0, items = (\<lambda>k. None), can_read = True, can_write = True, sent = [] \<rparr>"

definition no_opts :: fetch_opts where
  "no_opts = \<lparr> opt_borough = None, opt_nta = None, opt_limit = None \<rparr>"

definition example_loaded :: jsstring where
  "example_loaded = js ''2025-08-11T00:00:00.000Z''"

text \<open>
  Surroundings whose cache holds, under the key of \<open>no_opts\<close>, one list stamped at time 0;
  \<open>now\<close> is the clock.
\<close>

definition cached_env :: "int \<Rightarrow> nyc_env" where
  "cached_env now =
     empty_env \<lparr> clock := now,
                 items := (\<lambda>k. None)(cacheKey no_opts \<mapsto> Entry 0 [bare_profile]) \<rparr>"

text \<open>A network on which every request fails, and one that answers every request with no rows.\<close>

definition failing_server :: "int \<Rightarrow> soda_params \<Rightarrow> unit response \<times> int" where
  "failing_server t q = (Rejected, 250)"

definition empty_server :: "int \<Rightarrow> soda_params \<Rightarrow> unit response \<times> int" where
  "empty_server t q = (Body_rows [], 250)"

text \<open>A row mapper for the row type \<open>unit\<close>; no example hands it a row.\<close>

definition no_synth :: "unit \<Rightarrow> js_error + profile" where
  "no_synth row = Inl TypeError"

section \<open>Weighted choice and the mood of a generated profile\<close>

lemma roll_loop_mem: "roll_loop r ps = Some v \<Longrightarrow> v \<in> fst ` set ps"
proof (induction ps arbitrary: r)
  case Nil
  then show ?case by simp
next
  case (Cons p ps)
  obtain a w where p: "p = (a, w)" by (cases p)
  show ?case
  proof (cases "r - w \<le> 0")
    case True
    with Cons.prems p show ?thesis by simp
  next
    case False
    with Cons.prems p have "roll_loop (r - w) ps = Some v" by simp
    then have "v \<in> fst ` set ps" by (rule Cons.IH)
    then show ?thesis by simp
  qed
qed

lemma weightedChoice_mem:
  assumes "pairs \<noteq> []"
  shows "\<exists>v. weightedChoice u pairs = Inr v \<and> v \<in> fst ` set pairs"
proof (cases "roll_loop (u * foldl (\<lambda>s (v, w). s + w) 0 pairs) pairs")
  case None
  from assms have "at_index pairs (int (length pairs) - 1) = Some (last pairs)"
    by (simp add: at_index_def last_conv_nth nat_diff_distrib')
  moreover from assms have "fst (last pairs) \<in> fst ` set pairs"
    by simp
  ultimately show ?thesis
    using None by (simp add: weightedChoice_def)
next
  case (Some v)
  then show ?thesis
    by (auto simp: weightedChoice_def dest: roll_loop_mem)
qed

lemma generate_mood:
  "\<exists>p m. generate d = Inr p \<and> weightedChoice (u_mood d) emotional = Inr m
     \<and> emotional_state p = Some m"
proof -
  have "emotional \<noteq> []" by (simp add: emotional_def)
  then obtain m where "weightedChoice (u_mood d) emotional = Inr m"
    using weightedChoice_mem by blast
  then show ?thesis by (simp add: generate_def Let_def)
qed

text \<open>
  Claim C10. On a non-empty list of (value, weight) pairs \<open>weightedChoice\<close> returns, for
  every roll, a value that occurs in the list: it raises nothing and returns no
  \<^verbatim>\<open>undefined\<close>. Hence \<open>generate\<close> always produces a profile, and its emotional state is one
  of the eight moods of the weight table \<open>emotional\<close>.
\<close>

theorem weightedChoice_returns_listed_value:
  "(pairs \<noteq> [] \<longrightarrow> (\<exists>v. weightedChoice u pairs = Inr v \<and> v \<in> fst ` set pairs))
   \<and> (\<exists>p m. generate d = Inr p \<and> emotional_state p = Some m
          \<and> m \<in> set (map js [''focused'', ''stressed'', ''curious'', ''flow'', ''burnout'',
                               ''optimistic'', ''calm'', ''distracted'']))"
proof
  show "pairs \<noteq> [] \<longrightarrow> (\<exists>v. weightedChoice u pairs = Inr v \<and> v \<in> fst ` set pairs)"
    using weightedChoice_mem by blast
next
  obtain p m where pm: "generate d = Inr p" "weightedChoice (u_mood d) emotional = Inr m"
    "emotional_state p = Some m"
    using generate_mood by blast
  have "emotional \<noteq> []" by (simp add: emotional_def)
  then have "m \<in> fst ` set emotional"
    using weightedChoice_mem [of emotional "u_mood d"] pm(2) by auto
  also have "fst ` set emotional = set (map js [''focused'', ''stressed'', ''curious'', ''flow'',
      ''burnout'', ''optimistic'', ''calm'', ''distracted''])"
    by (simp add: emotional_def)
  finally show "\<exists>p m. generate d = Inr p \<and> emotional_state p = Some m
          \<and> m \<in> set (map js [''focused'', ''stressed'', ''curious'', ''flow'', ''burnout'',
                               ''optimistic'', ''calm'', ''distracted''])"
    using pm by blast
qed

theorem weightedChoice_returns_listed_value_witness:
  "[(js ''focused'', 3::real), (js ''stressed'', 2)] \<noteq> []
   \<and> (\<exists>v. weightedChoice (1 / 2) [(js ''focused'', 3), (js ''stressed'', 2)] = Inr v
          \<and> v \<in> fst ` set [(js ''focused'', 3::real), (js ''stressed'', 2)])"
  using weightedChoice_returns_listed_value
    [of "[(js ''focused'', 3), (js ''stressed'', 2)]" "1 / 2"]
  by simp

section \<open>The synthetic risk score\<close>

lemma clamp_range: "a \<le> b \<Longrightarrow> a \<le> clamp v a b \<and> clamp v a b \<le> b"
  by (auto simp: clamp_def)

text \<open>
  Claim C7. For every draw, every income (zero, negative or arbitrarily large) and every
  mood of the bias table, the risk score of \<open>riskFromIncomeAndMood\<close> and of \<open>biasRisk\<close>
  is an integer between 0 and 100; so is the risk score of every generated profile.
\<close>

theorem risk_score_in_0_100:
  "(mood \<in> fst ` set moodBias \<longrightarrow>
      0 \<le> riskFromIncomeAndMood u income (Some mood)
      \<and> riskFromIncomeAndMood u income (Some mood) \<le> 100)
   \<and> (mood \<in> fst ` set nyc_moodBias \<longrightarrow>
      0 \<le> biasRisk u income' (Some mood) \<and> biasRisk u income' (Some mood) \<le> 100)
   \<and> (\<exists>p r. generate d = Inr p \<and> risk_score p = Some r \<and> 0 \<le> r \<and> r \<le> 100)"
proof (intro conjI impI)
  show "0 \<le> riskFromIncomeAndMood u income (Some mood)"
    by (simp add: riskFromIncomeAndMood_def Let_def clamp_range)
  show "riskFromIncomeAndMood u income (Some mood) \<le> 100"
    by (simp add: riskFromIncomeAndMood_def Let_def clamp_range)
  show "0 \<le> biasRisk u income' (Some mood)"
    by (simp add: biasRisk_def Let_def)
  show "biasRisk u income' (Some mood) \<le> 100"
    by (simp add: biasRisk_def Let_def)
  obtain p m where pm: "generate d = Inr p" "weightedChoice (u_mood d) emotional = Inr m"
    using generate_mood by blast
  then have "risk_score p = Some (riskFromIncomeAndMood (u_risk d)
      (sampleIncome (u_income d) (choice industries (u_industry d))) (Some m))"
    by (auto simp: generate_def Let_def)
  moreover have "0 \<le> riskFromIncomeAndMood (u_risk d)
      (sampleIncome (u_income d) (choice industries (u_industry d))) (Some m)"
    by (simp add: riskFromIncomeAndMood_def Let_def clamp_range)
  moreover have "riskFromIncomeAndMood (u_risk d)
      (sampleIncome (u_income d) (choice industries (u_industry d))) (Some m) \<le> 100"
    by (simp add: riskFromIncomeAndMood_def Let_def clamp_range)
  ultimately show "\<exists>p r. generate d = Inr p \<and> risk_score p = Some r \<and> 0 \<le> r \<and> r \<le> 100"
    using pm(1) by blast
qed

theorem risk_score_in_0_100_witness:
  "js ''burnout'' \<in> fst ` set moodBias
   \<and> 0 \<le> riskFromIncomeAndMood (99 / 100) 0 (Some (js ''burnout''))
   \<and> riskFromIncomeAndMood (99 / 100) 0 (Some (js ''burnout'')) \<le> 100
   \<and> js ''burnout'' \<in> fst ` set nyc_moodBias
   \<and> 0 \<le> biasRisk (99 / 100) 0 (Some (js ''burnout''))
   \<and> biasRisk (99 / 100) 0 (Some (js ''burnout'')) \<le> 100"
  using risk_score_in_0_100 [of "js ''burnout''" "99 / 100" 0 0]
  by (simp add: moodBias_def nyc_moodBias_def)

section \<open>Key positions lie inside the encoded string\<close>

lemma indexOf_bound: "0 \<le> indexOf s k \<Longrightarrow> indexOf s k + int (length k) \<le> int (length s)"
proof (induction s)
  case Nil
  then show ?case by (simp split: if_splits)
next
  case (Cons c cs)
  show ?case
  proof (cases "take (length k) (c # cs) = k")
    case True
    from arg_cong [OF True, of length] have "length k \<le> length (c # cs)"
      by simp
    with True show ?thesis by simp
  next
    case False
    with Cons.prems have r: "0 \<le> indexOf cs k"
      by (simp add: Let_def split: if_splits)
    with False have "indexOf (c # cs) k = indexOf cs k + 1"
      by (simp add: Let_def)
    with Cons.IH [OF r] show ?thesis by simp
  qed
qed

lemma add_key_bound:
  assumes "pos \<subseteq> {0..<int (length str)}"
  shows "add_key str pos k \<subseteq> {0..<int (length str)}"
proof (cases "0 \<le> indexOf str k")
  case True
  have "set (map (\<lambda>i. indexOf str k + int i) [0..<length k]) \<subseteq> {0..<int (length str)}"
    using True indexOf_bound [OF True] by auto
  with assms True show ?thesis by (simp add: add_key_def Let_def)
next
  case False
  with assms show ?thesis by (simp add: add_key_def Let_def)
qed

lemma foldl_add_key_bound:
  "pos \<subseteq> {0..<int (length str)} \<Longrightarrow> foldl (add_key str) pos ks \<subseteq> {0..<int (length str)}"
  by (induction ks arbitrary: pos) (simp_all add: add_key_bound)

text \<open>
  Claim C8. For every string the key positions that \<open>computeKeyPositions\<close> records are
  offsets of that string, and so the key-position set of the painter built for any
  profile and style (and any draws) is a subset of \<open>[0, length of its string)\<close>.
\<close>

theorem keyCharPositions_within_string:
  "computeKeyPositions str \<subseteq> {0..<int (length str)}
   \<and> keyCharPositions (StringPainter rnd p s)
       \<subseteq> {0..<int (length (string (StringPainter rnd p s)))}"
  by (simp add: computeKeyPositions_def StringPainter_def Let_def foldl_add_key_bound)

section \<open>Encoding and the random draws\<close>

lemma json_escape_plain:
  "\<forall>c \<in> set s. 32 \<le> c \<and> c < 55296 \<and> c \<noteq> 34 \<and> c \<noteq> 92 \<Longrightarrow> json_escape s = s"
  by (induction s) (auto simp: is_high_surrogate_def is_low_surrogate_def)

lemma toFixed_at_0:
  "toFixed (rand 0 100 600) 2 = js ''100.00''"
  "toFixed (rand 0 100 400) 2 = js ''100.00''"
  "toFixed (rand 0 200 800) 1 = js ''200.0''"
  by (simp_all add: toFixed_def rand_def digits.simps js_def)

lemma toFixed_at_half:
  "toFixed (rand (1 / 2) 100 600) 2 = js ''350.00''"
  "toFixed (rand (1 / 2) 100 400) 2 = js ''250.00''"
  "toFixed (rand (1 / 2) 200 800) 1 = js ''500.0''"
  by (simp_all add: toFixed_def rand_def digits.simps js_def)

text \<open>
  Claim C1, as stated, fails: in the json style a profile without coordinates is encoded
  with three coordinates drawn afresh by \<^verbatim>\<open>Math.random()\<close>. For the profile \<^verbatim>\<open>{}\<close> the
  draws \<open>0, 0, 0\<close> give the coordinates \<^verbatim>\<open>"100.00","100.00","200.0"\<close> and the draws
  \<open>1/2, 1/2, 1/2\<close> give \<^verbatim>\<open>"350.00","250.00","500.0"\<close>, so two encodings of the same
  profile and style give different display strings. Only this half of the claim fails:
  the key-position set is the same for both, as the amended claim below states.
\<close>

theorem json_encoding_depends_on_draws:
  "buildString (\<lambda>k. 0) bare_profile Json \<noteq> buildString (\<lambda>k. 1 / 2) bare_profile Json"
proof -
  have a: "coords bare_profile = None"
    by (simp add: bare_profile_def)
  have "json_array [CoordStr (js ''100.00''), CoordStr (js ''100.00''), CoordStr (js ''200.0'')]
      \<noteq> json_array [CoordStr (js ''350.00''), CoordStr (js ''250.00''), CoordStr (js ''500.0'')]"
    by (simp add: json_array_def json_coord_def json_string_def js_def
        is_high_surrogate_def is_low_surrogate_def)
  then show ?thesis
    unfolding buildString_def Let_def a toFixed_at_0 toFixed_at_half by simp
qed

subsection \<open>The drawn coordinates hold no key\<close>

lemma indexOf_absent:
  assumes "k \<noteq> []" "last k \<notin> set X"
  shows "indexOf X k = - 1"
  using assms(2)
proof (induction X)
  case Nil
  with assms(1) show ?case by simp
next
  case (Cons c cs)
  have "take (length k) (c # cs) \<noteq> k"
  proof
    assume "take (length k) (c # cs) = k"
    then have "set k \<subseteq> set (c # cs)"
      by (metis set_take_subset)
    moreover from assms(1) have "last k \<in> set k" by simp
    ultimately show False using Cons.prems by blast
  qed
  moreover from Cons have "indexOf cs k = - 1" by simp
  ultimately show ?case by simp
qed

lemma take_append_match:
  assumes "k \<noteq> []" "last k \<notin> set X"
  shows "take (length k) (A @ X) = k \<longleftrightarrow> take (length k) A = k"
proof
  assume m: "take (length k) (A @ X) = k"
  show "take (length k) A = k"
  proof (cases "length k \<le> length A")
    case True
    with m show ?thesis by simp
  next
    case False
    let ?t = "take (length k - length A) X"
    from m False have k: "k = A @ ?t" by simp
    from arg_cong [OF m, of length] False have "length ?t = length k - length A"
      by simp
    with False have ne: "?t \<noteq> []" by auto
    with k have "last k = last ?t" by (metis last_appendR)
    moreover from ne have "last ?t \<in> set ?t" by simp
    moreover have "set ?t \<subseteq> set X" by (rule set_take_subset)
    ultimately show ?thesis using assms(2) by auto
  qed
next
  assume m: "take (length k) A = k"
  from arg_cong [OF m, of length] have "length k \<le> length A" by simp
  with m show "take (length k) (A @ X) = k" by simp
qed

lemma indexOf_append_tail:
  assumes "k \<noteq> []" "last k \<notin> set X"
  shows "indexOf (A @ X) k = indexOf A k"
proof (induction A)
  case Nil
  from assms have "indexOf X k = - 1" by (rule indexOf_absent)
  with assms(1) show ?case by simp
next
  case (Cons c cs)
  have "take (length k) ((c # cs) @ X) = k \<longleftrightarrow> take (length k) (c # cs) = k"
    using assms by (rule take_append_match)
  with Cons show ?case by simp
qed

lemma computeKeyPositions_append_tail:
  assumes "\<forall>c \<in> set X. c < 97 \<or> 107 < c" "\<forall>c \<in> set Y. c < 97 \<or> 107 < c"
  shows "computeKeyPositions (A @ X) = computeKeyPositions (A @ Y)"
proof -
  have "add_key (A @ X) pos k = add_key (A @ Y) pos k" if "k \<in> set keys" for pos k
  proof -
    from that have "k \<noteq> [] \<and> 97 \<le> last k \<and> last k \<le> 107"
      by (auto simp: keys_def js_def)
    with assms have "k \<noteq> []" "last k \<notin> set X" "last k \<notin> set Y"
      by auto
    then have "indexOf (A @ X) k = indexOf A k" "indexOf (A @ Y) k = indexOf A k"
      by (simp_all add: indexOf_append_tail)
    then show ?thesis by (simp add: add_key_def)
  qed
  then show ?thesis
    unfolding computeKeyPositions_def by (intro foldl_cong) simp_all
qed

lemma digits_chars: "set (digits n) \<subseteq> {48..57}"
proof (induction n rule: digits.induct)
  case (1 n)
  show ?case
  proof (cases "n < 10")
    case True
    then show ?thesis by (subst digits.simps) simp
  next
    case False
    have "n mod 10 < 10" by simp
    then have "48 + n mod 10 \<in> {48..57}" by simp
    with False 1 show ?thesis by (subst digits.simps) simp
  qed
qed

lemma toFixed_chars: "set (toFixed x f) \<subseteq> {45, 46} \<union> {48..57}"
proof -
  let ?m = "digits (nat \<lfloor>\<bar>x\<bar> * 10 ^ f + 1 / 2\<rfloor>)"
  let ?z = "replicate (f + 1 - length ?m) 48 @ ?m"
  have z: "set ?z \<subseteq> {48..57}"
    using digits_chars [of "nat \<lfloor>\<bar>x\<bar> * 10 ^ f + 1 / 2\<rfloor>"] by auto
  have "set (take (length ?z - f) ?z) \<subseteq> set ?z" "set (drop (length ?z - f) ?z) \<subseteq> set ?z"
    by (rule set_take_subset, rule set_drop_subset)
  with z have td: "set (take (length ?z - f) ?z) \<subseteq> {48..57}" "set (drop (length ?z - f) ?z) \<subseteq> {48..57}"
    by blast+
  have m: "set ?m \<subseteq> {48..57}" by (rule digits_chars)
  have s: "set (if x < 0 then js ''-'' else []) \<subseteq> {45}"
    by (auto simp: js_def)
  have dot: "set (js ''.'') = {46}" by (simp add: js_def)
  show ?thesis
    unfolding toFixed_def Let_def using td m s dot
    by (cases "f = 0") (auto simp only: set_append if_True if_False split: if_splits)
qed

lemma drawn_coords_chars:
  "\<forall>c \<in> set (json_array [CoordStr (toFixed a f), CoordStr (toFixed b g), CoordStr (toFixed d h)]
              @ js ''}''). c < 97 \<or> 107 < c"
proof -
  have esc: "json_escape (toFixed x e) = toFixed x e" for x e
    using toFixed_chars [of x e] by (intro json_escape_plain) auto
  have t: "\<forall>c \<in> set (toFixed x e). c < 97" for x e
    using toFixed_chars [of x e] by auto
  have "set (json_array [CoordStr (toFixed a f), CoordStr (toFixed b g), CoordStr (toFixed d h)]
              @ js ''}'')
      = {91, 34, 44, 93, 125} \<union> set (toFixed a f) \<union> set (toFixed b g) \<union> set (toFixed d h)"
    by (auto simp: json_array_def json_coord_def json_string_def esc js_def)
  with t [of a f] t [of b g] t [of d h] show ?thesis by auto
qed

lemma buildString_json_split:
  assumes "coords p = None"
  shows \<open>\<exists>A. \<forall>r. buildString r p Json
     = A @ (json_array [CoordStr (toFixed (rand (r 0) 100 600) 2),
                        CoordStr (toFixed (rand (r 1) 100 400) 2),
                        CoordStr (toFixed (rand (r 2) 200 800) 1)] @ js ''}'')\<close>
proof -
  define A where \<open>A = js ''{"profile":''
       @ json_string (filter (\<lambda>c. c \<noteq> 10) (profileLabel p @ js ''\<newline>''))
       @ js '',"nta":'' @ json_string (or_str (nta p) [])
       @ js '',"income":'' @ show_int (or_num (income_usd p) 0)
       @ js '',"mood":'' @ json_string (or_str (emotional_state p) [])
       @ js '',"coords":''\<close>
  have "buildString r p Json
     = A @ (json_array [CoordStr (toFixed (rand (r 0) 100 600) 2),
                        CoordStr (toFixed (rand (r 1) 100 400) 2),
                        CoordStr (toFixed (rand (r 2) 200 800) 1)] @ js ''}'')" for r
    unfolding A_def buildString_def Let_def assms by (simp only: append_assoc style.distinct if_False option.case)
  then show ?thesis by blast
qed

lemma key_positions_independent:
  "computeKeyPositions (buildString r1 p s) = computeKeyPositions (buildString r2 p s)"
proof (cases "s = Json \<and> coords p = None")
  case True
  then obtain A where A: "\<And>r. buildString r p Json
     = A @ (json_array [CoordStr (toFixed (rand (r 0) 100 600) 2),
                        CoordStr (toFixed (rand (r 1) 100 400) 2),
                        CoordStr (toFixed (rand (r 2) 200 800) 1)] @ js ''}'')"
    using buildString_json_split by blast
  from True show ?thesis
    unfolding A [of r1] A [of r2]
    by (simp only: A) (intro computeKeyPositions_append_tail drawn_coords_chars)
next
  case False
  then have "buildString r1 p s = buildString r2 p s"
    by (cases s) (auto simp: buildString_def)
  then show ?thesis by simp
qed

text \<open>
  Claim C1, amended. For every profile and every style, whatever \<^verbatim>\<open>Math.random()\<close>
  returns, two encodings of the same profile and style have the same key-position set.
  They also have the same display string (and so give the same painter) in the kv and
  code styles, and in the json style for a profile that carries coordinates; other
  optional fields may be absent. In the json style a profile without coordinates is
  encoded with three coordinates drawn afresh: its display string is a text \<open>A\<close> fixed by
  the profile, followed by the array of the drawn coordinates and the closing brace, so
  two encodings differ in the drawn coordinates only.
\<close>

theorem encoding_independent_of_draws:
  "keyCharPositions (StringPainter r1 p s) = keyCharPositions (StringPainter r2 p s)
   \<and> (s = Kv \<or> s = Code \<or> coords p \<noteq> None \<longrightarrow>
        buildString r1 p s = buildString r2 p s
        \<and> StringPainter r1 p s = StringPainter r2 p s)
   \<and> (s = Json \<and> coords p = None \<longrightarrow>
        (\<exists>A. \<forall>r. buildString r p s
           = A @ json_array [CoordStr (toFixed (rand (r 0) 100 600) 2),
                             CoordStr (toFixed (rand (r 1) 100 400) 2),
                             CoordStr (toFixed (rand (r 2) 200 800) 1)] @ js ''}''))"
proof (intro conjI impI)
  show "keyCharPositions (StringPainter r1 p s) = keyCharPositions (StringPainter r2 p s)"
    by (simp add: StringPainter_def Let_def key_positions_independent)
next
  assume "s = Kv \<or> s = Code \<or> coords p \<noteq> None"
  then show b: "buildString r1 p s = buildString r2 p s"
    by (cases s) (auto simp: buildString_def)
  then show "StringPainter r1 p s = StringPainter r2 p s"
    by (simp add: StringPainter_def)
next
  assume "s = Json \<and> coords p = None"
  then show "\<exists>A. \<forall>r. buildString r p s
           = A @ json_array [CoordStr (toFixed (rand (r 0) 100 600) 2),
                             CoordStr (toFixed (rand (r 1) 100 400) 2),
                             CoordStr (toFixed (rand (r 2) 200 800) 1)] @ js ''}''"
    using buildString_json_split [of p] by simp
qed

theorem encoding_independent_of_draws_witness:
  "keyCharPositions (StringPainter (\<lambda>k. 0) bare_profile Json)
     = keyCharPositions (StringPainter (\<lambda>k. 1 / 2) bare_profile Json)
   \<and> buildString (\<lambda>k. 0) bare_profile Kv = buildString (\<lambda>k. 1 / 2) bare_profile Kv
   \<and> StringPainter (\<lambda>k. 0) bare_profile Code = StringPainter (\<lambda>k. 1 / 2) bare_profile Code
   \<and> coords coords_only_profile \<noteq> None
   \<and> StringPainter (\<lambda>k. 0) coords_only_profile Json
       = StringPainter (\<lambda>k. 1 / 2) coords_only_profile Json
   \<and> coords bare_profile = None
   \<and> (\<exists>A. \<forall>r. buildString r bare_profile Json
           = A @ json_array [CoordStr (toFixed (rand (r 0) 100 600) 2),
                             CoordStr (toFixed (rand (r 1) 100 400) 2),
                             CoordStr (toFixed (rand (r 2) 200 800) 1)] @ js ''}'')"
  using encoding_independent_of_draws [of "\<lambda>k. 0" bare_profile Json "\<lambda>k. 1 / 2"]
    encoding_independent_of_draws [of "\<lambda>k. 0" bare_profile Kv "\<lambda>k. 1 / 2"]
    encoding_independent_of_draws [of "\<lambda>k. 0" bare_profile Code "\<lambda>k. 1 / 2"]
    encoding_independent_of_draws [of "\<lambda>k. 0" coords_only_profile Json "\<lambda>k. 1 / 2"]
  by (simp add: coords_only_profile_def bare_profile_def)

section \<open>Key check on buffer offsets\<close>

lemma js_rem_nonneg: "0 \<le> a \<Longrightarrow> 0 < b \<Longrightarrow> js_rem a b = Some (a mod b)"
  by (cases "a = 0") (simp_all add: js_rem_def)

lemma code_points_bmp:
  "\<forall>c \<in> set s. \<not> is_high_surrogate c \<Longrightarrow> code_points s = map (\<lambda>c. [c]) s"
  by (induction s rule: code_points.induct) auto

lemma kv_bare:
  "buildString rnd bare_profile Kv
     = js ''profile=Agent+U+? | nta= | mood= | income=$0 | risk=''"
  by (simp add: buildString_def bare_profile_def profileLabel_def or_str_def num_or_text_def
      toUpperCase1_def formatMoneyUSD_def or_num_def show_int_def digits.simps js_def)

lemma kp_bare:
  "computeKeyPositions (js ''profile=Agent+U+? | nta= | mood= | income=$0 | risk='') =
     {47, 48, 49, 50, 27, 28, 29, 30, 35, 36, 37, 38, 39, 40, 20, 21, 22, 0, 1, 2, 3, 4, 5, 6}"
  by (simp add: computeKeyPositions_def keys_def add_key_def js_def Let_def)

lemma len_bare: "length (js ''profile=Agent+U+? | nta= | mood= | income=$0 | risk='') = 52"
  by (simp add: js_def)

lemma kv_bare_painter:
  "length (string (StringPainter (\<lambda>k. 0) bare_profile Kv)) = 52
   \<and> length (buildGlyphStream (\<lambda>k. 0) (StringPainter (\<lambda>k. 0) bare_profile Kv)) = 40 + 52 + 40
   \<and> isKeyChar (StringPainter (\<lambda>k. 0) bare_profile Kv) 35
   \<and> isKeyChar (StringPainter (\<lambda>k. 0) bare_profile Kv) 92"
proof -
  let ?pt = "StringPainter (\<lambda>k. 0) bare_profile Kv"
  let ?s = "js ''profile=Agent+U+? | nta= | mood= | income=$0 | risk=''"
  have s: "string ?pt = ?s"
    by (simp add: StringPainter_def Let_def kv_bare)
  have k: "keyCharPositions ?pt =
      {47, 48, 49, 50, 27, 28, 29, 30, 35, 36, 37, 38, 39, 40, 20, 21, 22, 0, 1, 2, 3, 4, 5, 6}"
    by (simp add: StringPainter_def Let_def kv_bare kp_bare)
  have "code_points ?s = map (\<lambda>c. [c]) ?s"
    by (rule code_points_bmp) (simp add: js_def is_high_surrogate_def)
  then have g: "length (buildGlyphStream (\<lambda>k. 0) ?pt) = 40 + 52 + 40"
    by (simp add: buildGlyphStream_def Let_def pad_def s len_bare)
  have "isKeyChar ?pt 35"
    unfolding isKeyChar_def s len_bare k js_rem_def by simp
  moreover have "isKeyChar ?pt 92"
    unfolding isKeyChar_def s len_bare k js_rem_def by simp
  ultimately show ?thesis using s len_bare g by simp
qed

text \<open>
  Claim C2, as stated, fails. The kv encoding of the profile \<^verbatim>\<open>{}\<close> is
  \<^verbatim>\<open>profile=Agent+U+? | nta= | mood= | income=$0 | risk=\<close>, 52 characters, and its buffer
  has 132 entries: offsets 0 to 39 and 92 to 131 are padding. \<open>isKeyChar\<close> is true at
  offset 35 (left padding; it wraps to string offset 47, the \<^verbatim>\<open>r\<close> of \<^verbatim>\<open>risk\<close>) and at offset
  92 (right padding; it wraps to string offset 0, the \<^verbatim>\<open>p\<close> of \<^verbatim>\<open>profile\<close>).
\<close>

theorem padding_offset_reported_key:
  "length (buildGlyphStream (\<lambda>k. 0) (StringPainter (\<lambda>k. 0) bare_profile Kv)) = 40 + 52 + 40
   \<and> isKeyChar (StringPainter (\<lambda>k. 0) bare_profile Kv) 35
   \<and> isKeyChar (StringPainter (\<lambda>k. 0) bare_profile Kv) 92"
  using kv_bare_painter by simp

text \<open>
  Claim C2, amended. For every painter (so for every profile and style) and every buffer
  offset \<open>b \<ge> 0\<close>, \<open>isKeyChar\<close> is true exactly when the string offset
  \<open>(b - 40) mod length\<close> is a key position: the offset is wrapped onto the string, and the
  padding is not excluded. On the middle region, \<open>40 \<le> b < 40 + length\<close>, the check is
  the key-position set at \<open>b - 40\<close>; at a padding offset it is the key status of the string
  offset that the padding offset wraps onto.
\<close>

theorem isKeyChar_wraps_buffer_offset:
  assumes "0 \<le> b"
  shows "(isKeyChar pt b \<longleftrightarrow>
            string pt \<noteq> [] \<and> (b - 40) mod int (length (string pt)) \<in> keyCharPositions pt)
     \<and> (40 \<le> b \<and> b < 40 + int (length (string pt)) \<longrightarrow>
            (isKeyChar pt b \<longleftrightarrow> b - 40 \<in> keyCharPositions pt))"
proof -
  have wrap: "isKeyChar pt b \<longleftrightarrow>
      string pt \<noteq> [] \<and> (b - 40) mod int (length (string pt)) \<in> keyCharPositions pt"
  proof (cases "string pt = []")
    case True
    then show ?thesis by (simp add: isKeyChar_def js_rem_def)
  next
    case False
    let ?len = "int (length (string pt))"
    from False have len: "0 < ?len" by simp
    then have "40 \<le> ?len * 10000" by linarith
    with assms have "0 \<le> b - 40 + ?len * 10000" by simp
    then have "js_rem (b - 40 + ?len * 10000) ?len = Some ((b - 40 + ?len * 10000) mod ?len)"
      using len by (rule js_rem_nonneg)
    moreover have "(b - 40 + ?len * 10000) mod ?len = (b - 40) mod ?len"
      by simp
    ultimately show ?thesis using False by (simp add: isKeyChar_def Let_def)
  qed
  have "isKeyChar pt b \<longleftrightarrow> b - 40 \<in> keyCharPositions pt"
    if "40 \<le> b" "b < 40 + int (length (string pt))"
  proof -
    from that have "string pt \<noteq> []" by auto
    moreover from that have "(b - 40) mod int (length (string pt)) = b - 40" by simp
    ultimately show ?thesis using wrap by simp
  qed
  with wrap show ?thesis by blast
qed

theorem isKeyChar_wraps_buffer_offset_witness:
  "(0::int) \<le> 35 \<and> isKeyChar (StringPainter (\<lambda>k. 0) bare_profile Kv) 35
   \<and> (35 - 40) mod int (length (string (StringPainter (\<lambda>k. 0) bare_profile Kv)))
       \<in> keyCharPositions (StringPainter (\<lambda>k. 0) bare_profile Kv)"
  using isKeyChar_wraps_buffer_offset [of 35 "StringPainter (\<lambda>k. 0) bare_profile Kv"]
    kv_bare_painter
  by simp

section \<open>Range and monotonicity of the column count\<close>

lemma clamp_above: "a \<le> v \<Longrightarrow> clamp v a b = min v b"
  by (auto simp: clamp_def)

lemma cols_range:
  assumes "(8::int) \<le> mc"
  shows "8 \<le> clamp (max 8 x) 8 mc \<and> clamp (max 8 x) 8 mc \<le> mc"
  using assms by (simp add: clamp_range)

lemma cols_mono: "x \<le> y \<Longrightarrow> clamp (max 8 x) 8 mc \<le> clamp (max (8::int) y) 8 mc"
  by (simp add: clamp_above)

text \<open>
  Claim C3. For every density scale in \<open>[0.2, 2.0]\<close>, every surface width and every
  \<open>maxColumns \<ge> 8\<close> (the configuration has 160), the column count that \<open>resetColumns\<close>
  computes, and the one \<open>update\<close> compares it with, lie in \<open>[8, maxColumns]\<close> and do not
  decrease when the width or the density scale grows. This holds for exact arithmetic and
  for any rounding \<open>fl\<close> that is monotone and keeps zero.
\<close>

theorem column_count_range_and_monotone:
  assumes fl: "mono fl" "fl 0 = 0"
    and d: "0.2 \<le> d" "d \<le> 2"
    and mc: "8 \<le> maxColumns"
  shows "8 \<le> numCols fl d maxColumns w \<and> numCols fl d maxColumns w \<le> maxColumns
     \<and> 8 \<le> desiredCols fl d maxColumns w \<and> desiredCols fl d maxColumns w \<le> maxColumns
     \<and> (w \<le> w' \<longrightarrow> numCols fl d maxColumns w \<le> numCols fl d maxColumns w'
                  \<and> desiredCols fl d maxColumns w \<le> desiredCols fl d maxColumns w')
     \<and> (d \<le> d' \<and> d' \<le> 2 \<longrightarrow> numCols fl d maxColumns w \<le> numCols fl d' maxColumns w
                  \<and> desiredCols fl d maxColumns w \<le> desiredCols fl d' maxColumns w)"
proof -
  have fl_mono: "fl x \<le> fl y" if "x \<le> y" for x y
    using fl(1) that by (rule monoD)
  have fl_nonneg: "0 \<le> fl x" if "0 \<le> x" for x
    using fl_mono [OF that] fl(2) by simp
  have range: "8 \<le> numCols fl d maxColumns w \<and> numCols fl d maxColumns w \<le> maxColumns
     \<and> 8 \<le> desiredCols fl d maxColumns w \<and> desiredCols fl d maxColumns w \<le> maxColumns"
    using mc by (simp add: numCols_def desiredCols_def Let_def cols_range)
  have c: "0 \<le> fl 0.7"
    by (intro fl_nonneg) simp
  have in_w: "numCols fl d maxColumns w \<le> numCols fl d maxColumns w'
      \<and> desiredCols fl d maxColumns w \<le> desiredCols fl d maxColumns w'" if "w \<le> w'"
  proof -
    from that have q: "fl (real w / glyphSize) \<le> fl (real w' / glyphSize)"
      by (intro fl_mono) (simp add: glyphSize_def)
    from c d have "0 \<le> fl 0.7 * d" by simp
    then have nn: "0 \<le> fl (fl 0.7 * d)" by (rule fl_nonneg)
    from q nn have "fl (real w / glyphSize) * fl (fl 0.7 * d)
        \<le> fl (real w' / glyphSize) * fl (fl 0.7 * d)"
      by (rule mult_right_mono)
    then have "fl (fl (real w / glyphSize) * fl (fl 0.7 * d))
        \<le> fl (fl (real w' / glyphSize) * fl (fl 0.7 * d))"
      by (rule fl_mono)
    then have a: "numCols fl d maxColumns w \<le> numCols fl d maxColumns w'"
      by (simp add: numCols_def Let_def floor_mono cols_mono)
    from q c have "fl (real w / glyphSize) * fl 0.7 \<le> fl (real w' / glyphSize) * fl 0.7"
      by (rule mult_right_mono)
    then have "fl (fl (real w / glyphSize) * fl 0.7) \<le> fl (fl (real w' / glyphSize) * fl 0.7)"
      by (rule fl_mono)
    moreover from d have "0 \<le> d" by simp
    ultimately have "fl (fl (real w / glyphSize) * fl 0.7) * d
        \<le> fl (fl (real w' / glyphSize) * fl 0.7) * d"
      by (rule mult_right_mono)
    then have "fl (fl (fl (real w / glyphSize) * fl 0.7) * d)
        \<le> fl (fl (fl (real w' / glyphSize) * fl 0.7) * d)"
      by (rule fl_mono)
    then have "desiredCols fl d maxColumns w \<le> desiredCols fl d maxColumns w'"
      by (simp add: desiredCols_def Let_def floor_mono cols_mono)
    with a show ?thesis by simp
  qed
  have in_d: "numCols fl d maxColumns w \<le> numCols fl d' maxColumns w
      \<and> desiredCols fl d maxColumns w \<le> desiredCols fl d' maxColumns w" if "d \<le> d'"
  proof -
    have q: "0 \<le> fl (real w / glyphSize)"
      by (intro fl_nonneg) (simp add: glyphSize_def)
    from that c have "fl 0.7 * d \<le> fl 0.7 * d'" by (rule mult_left_mono)
    then have "fl (fl 0.7 * d) \<le> fl (fl 0.7 * d')" by (rule fl_mono)
    then have "fl (real w / glyphSize) * fl (fl 0.7 * d)
        \<le> fl (real w / glyphSize) * fl (fl 0.7 * d')"
      using q by (rule mult_left_mono)
    then have "fl (fl (real w / glyphSize) * fl (fl 0.7 * d))
        \<le> fl (fl (real w / glyphSize) * fl (fl 0.7 * d'))"
      by (rule fl_mono)
    then have a: "numCols fl d maxColumns w \<le> numCols fl d' maxColumns w"
      by (simp add: numCols_def Let_def floor_mono cols_mono)
    from q c have "0 \<le> fl (real w / glyphSize) * fl 0.7"
      by (rule mult_nonneg_nonneg)
    then have "0 \<le> fl (fl (real w / glyphSize) * fl 0.7)"
      by (rule fl_nonneg)
    with that have "fl (fl (real w / glyphSize) * fl 0.7) * d
        \<le> fl (fl (real w / glyphSize) * fl 0.7) * d'"
      by (rule mult_left_mono)
    then have "fl (fl (fl (real w / glyphSize) * fl 0.7) * d)
        \<le> fl (fl (fl (real w / glyphSize) * fl 0.7) * d')"
      by (rule fl_mono)
    then have "desiredCols fl d maxColumns w \<le> desiredCols fl d' maxColumns w"
      by (simp add: desiredCols_def Let_def floor_mono cols_mono)
    with a show ?thesis by simp
  qed
  from range in_w in_d show ?thesis by blast
qed

theorem column_count_range_and_monotone_witness:
  "mono (\<lambda>x::real. x) \<and> (0.2::real) \<le> 1 \<and> (1::real) \<le> 2 \<and> (8::int) \<le> 160
   \<and> 8 \<le> numCols (\<lambda>x. x) 1 160 1280 \<and> numCols (\<lambda>x. x) 1 160 1280 \<le> 160
   \<and> (1280::nat) \<le> 1920 \<and> numCols (\<lambda>x. x) 1 160 1280 \<le> numCols (\<lambda>x. x) 1 160 1920
   \<and> (1::real) \<le> 2 \<and> desiredCols (\<lambda>x. x) 1 160 1280 \<le> desiredCols (\<lambda>x. x) 2 160 1280"
  using column_count_range_and_monotone [of "\<lambda>x. x" 1 160 1280 1920 2]
  by (simp add: mono_def)

section \<open>The profiles a request returns\<close>

lemma sequence_all_Inr:
  "\<forall>x \<in> set xs. \<exists>v. x = Inr v \<Longrightarrow> \<exists>vs. sequence xs = Inr vs \<and> length vs = length xs"
proof (induction xs)
  case Nil
  then show ?case by simp
next
  case (Cons x xs)
  then obtain v where v: "x = Inr v" by auto
  from Cons obtain vs where vs: "sequence xs = Inr vs" "length vs = length xs" by auto
  with v show ?case by simp
qed

lemma generate_total: "\<exists>p. generate d = Inr p"
  using generate_mood by blast

lemma generateFakeBatch_total:
  "\<exists>batch. generateFakeBatch supply start n = Inr batch \<and> length batch = n"
proof -
  have "\<forall>x \<in> set (map (\<lambda>i. generate (supply (start + i))) [0..<n]). \<exists>v. x = Inr v"
    using generate_total by auto
  from sequence_all_Inr [OF this] show ?thesis
    by (simp add: generateFakeBatch_def)
qed

lemma takeLoop_length: "length (takeLoop arr n) = n"
  by (simp add: takeLoop_def)

lemma takeLoop_nth:
  assumes "arr \<noteq> []" "i < n"
  shows "takeLoop arr n ! i = Some (arr ! (i mod length arr))"
proof -
  from assms(1) have "js_rem (int i) (int (length arr)) = Some (int i mod int (length arr))"
    by (intro js_rem_nonneg) simp_all
  moreover have "int i mod int (length arr) = int (i mod length arr)"
    by (simp add: zmod_int)
  moreover from assms(1) have "i mod length arr < length arr" by simp
  ultimately show ?thesis
    using assms(2) by (simp add: takeLoop_def at_index_def)
qed

lemma sequence_Inr_nth:
  "sequence xs = Inr vs \<Longrightarrow> length vs = length xs \<and> (\<forall>j < length xs. xs ! j = Inr (vs ! j))"
proof (induction xs arbitrary: vs)
  case Nil
  then show ?case by simp
next
  case (Cons x xs)
  from Cons.prems obtain v ws where x: "x = Inr v" and ws: "sequence xs = Inr ws" and vs: "vs = v # ws"
    by (auto split: sum.splits)
  from Cons.IH [OF ws] have ih: "length ws = length xs" "\<forall>j < length xs. xs ! j = Inr (ws ! j)"
    by simp_all
  show ?case
  proof (intro conjI allI impI)
    from ih vs show "length vs = length (x # xs)" by simp
  next
    fix j assume "j < length (x # xs)"
    with ih x vs show "(x # xs) ! j = Inr (vs ! j)"
      by (cases j) simp_all
  qed
qed

lemma generateFakeBatch_nth:
  assumes "generateFakeBatch supply start n = Inr batch"
  shows "length batch = n \<and> (\<forall>j < n. generate (supply (start + j)) = Inr (batch ! j))"
  using sequence_Inr_nth [OF assms [unfolded generateFakeBatch_def]] by simp

text \<open>
  Claim C4. For every count \<open>n \<ge> 1\<close>, in either source mode and from any state,
  \<open>getProfiles\<close> returns (it raises nothing) a list of exactly \<open>n\<close> entries, and entry \<open>i\<close>
  is the profile at \<open>i mod poolSize\<close> of the pool the call leaves, which is not empty.
  That pool is tied to the pool the call found. With the external source and a non-empty
  pool, the pool is kept as it is (only a refresh is requested), so the result is the pool
  found, repeated cyclically when it holds fewer than \<open>n\<close> profiles. With the external
  source and an empty pool, the pool becomes the next \<open>n\<close> results of \<open>generate\<close>. With
  the synthetic source and a pool of at least \<open>n\<close> profiles, nothing changes and the result
  is the first \<open>n\<close> profiles of the pool; with a smaller pool, the pool becomes the next
  \<open>max n 128\<close> results of \<open>generate\<close>.
\<close>

theorem getProfiles_length_and_cycle:
  assumes "1 \<le> n"
  shows "\<exists>out ds'. getProfiles nyc supply ds n = Inr (out, ds')
     \<and> length out = n
     \<and> cachedProfiles ds' \<noteq> []
     \<and> (\<forall>i < n. out ! i = Some (cachedProfiles ds' ! (i mod length (cachedProfiles ds'))))
     \<and> (nyc \<and> cachedProfiles ds \<noteq> [] \<longrightarrow>
          ds' = ds \<lparr> refreshes := refreshes ds + 1 \<rparr>
          \<and> (\<forall>i < n. out ! i = Some (cachedProfiles ds ! (i mod length (cachedProfiles ds)))))
     \<and> (nyc \<and> cachedProfiles ds = [] \<longrightarrow>
          length (cachedProfiles ds') = n
          \<and> (\<forall>j < n. generate (supply (generated ds + j)) = Inr (cachedProfiles ds' ! j))
          \<and> generated ds' = generated ds + n \<and> refreshes ds' = refreshes ds + 1)
     \<and> (\<not> nyc \<and> n \<le> length (cachedProfiles ds) \<longrightarrow>
          ds' = ds \<and> (\<forall>i < n. out ! i = Some (cachedProfiles ds ! i)))
     \<and> (\<not> nyc \<and> length (cachedProfiles ds) < n \<longrightarrow>
          length (cachedProfiles ds') = max n 128
          \<and> (\<forall>j < max n 128. generate (supply (generated ds + j)) = Inr (cachedProfiles ds' ! j))
          \<and> generated ds' = generated ds + max n 128 \<and> refreshes ds' = refreshes ds)"
proof -
  have fin: "length (takeLoop pool n) = n
      \<and> (\<forall>i < n. takeLoop pool n ! i = Some (pool ! (i mod length pool)))"
    if "pool \<noteq> []" for pool :: "profile list"
    using that by (simp add: takeLoop_length takeLoop_nth)
  show ?thesis
  proof (cases nyc)
    case True
    show ?thesis
    proof (cases "cachedProfiles ds = []")
      case empty: True
      obtain batch where b: "generateFakeBatch supply (generated ds) n = Inr batch"
        "length batch = n"
        using generateFakeBatch_total by blast
      with assms have ne: "batch \<noteq> []" by auto
      from generateFakeBatch_nth [OF b(1)]
      have g: "\<forall>j < n. generate (supply (generated ds + j)) = Inr (batch ! j)" by simp
      from fin [OF ne] ne True empty b g show ?thesis
        by (simp add: getProfiles_def Let_def)
    next
      case nonempty: False
      from fin [OF nonempty] nonempty True show ?thesis
        by (simp add: getProfiles_def Let_def)
    qed
  next
    case False
    show ?thesis
    proof (cases "length (cachedProfiles ds) < n")
      case short: True
      obtain batch where b: "generateFakeBatch supply (generated ds) (max n 128) = Inr batch"
        "length batch = max n 128"
        using generateFakeBatch_total by blast
      then have ne: "batch \<noteq> []" by auto
      from generateFakeBatch_nth [OF b(1)]
      have g: "\<forall>j < max n 128. generate (supply (generated ds + j)) = Inr (batch ! j)" by simp
      from fin [OF ne] ne False short b g show ?thesis
        by (simp add: getProfiles_def Let_def)
    next
      case enough: False
      with assms have ne: "cachedProfiles ds \<noteq> []" by auto
      from fin [OF ne] ne False enough show ?thesis
        by (simp add: getProfiles_def Let_def)
    qed
  qed
qed

theorem getProfiles_length_and_cycle_witness:
  "(1::nat) \<le> 5
   \<and> getProfiles True (\<lambda>k. example_draws)
        \<lparr> cachedProfiles = [bare_profile, coords_only_profile], generated = 0, refreshes = 0 \<rparr> 5
      = Inr ([Some bare_profile, Some coords_only_profile, Some bare_profile,
              Some coords_only_profile, Some bare_profile],
             \<lparr> cachedProfiles = [bare_profile, coords_only_profile], generated = 0,
               refreshes = 1 \<rparr>)"
proof -
  let ?ds = "\<lparr> cachedProfiles = [bare_profile, coords_only_profile], generated = 0,
    refreshes = 0 \<rparr>"
  from getProfiles_length_and_cycle [of 5 True "\<lambda>k. example_draws" ?ds]
  obtain out ds' where r: "getProfiles True (\<lambda>k. example_draws) ?ds 5 = Inr (out, ds')"
    and len: "length out = 5"
    and ds': "ds' = ?ds \<lparr> refreshes := refreshes ?ds + 1 \<rparr>"
    and el: "\<forall>i < 5. out ! i = Some (cachedProfiles ?ds ! (i mod length (cachedProfiles ?ds)))"
    by auto
  have m: "(2::nat) mod Suc (Suc 0) = 0" "(3::nat) mod Suc (Suc 0) = 1"
    "(4::nat) mod Suc (Suc 0) = 0"
    by presburger+
  from el have "out ! 0 = Some bare_profile" "out ! 1 = Some coords_only_profile"
    "out ! 2 = Some bare_profile" "out ! 3 = Some coords_only_profile"
    "out ! 4 = Some bare_profile"
    by (simp_all add: m)
  with len have "out = [Some bare_profile, Some coords_only_profile, Some bare_profile,
              Some coords_only_profile, Some bare_profile]"
    by (auto simp: list_eq_iff_nth_eq less_Suc_eq numeral_eq_Suc)
  with r ds' show ?thesis by simp
qed

section \<open>The supplier boundary: cache and fallback\<close>

lemma getCache_fresh:
  "can_read env \<Longrightarrow> items env key = Some (Entry t v) \<Longrightarrow> clock env - t \<le> ONE_HOUR_MS
     \<Longrightarrow> getCache env key = Some v"
  by (simp add: getCache_def getItem_def JSON_parse_def)

lemma getCache_stale:
  "items env key = Some (Entry t v) \<Longrightarrow> clock env - t > ONE_HOUR_MS \<Longrightarrow> getCache env key = None"
  by (simp add: getCache_def getItem_def JSON_parse_def)

lemma getCache_absent: "items env key = None \<Longrightarrow> getCache env key = None"
  by (simp add: getCache_def getItem_def)

lemma getCache_later:
  assumes "getCache env key = None" "0 \<le> dt"
  shows "getCache (env \<lparr> clock := clock env + dt, sent := s \<rparr>) key = None"
  using assms
  by (auto simp: getCache_def getItem_def JSON_parse_def split: if_splits option.splits stored.splits)

lemma setCache_sent [simp]: "sent (setCache env key v) = sent env"
  by (simp add: setCache_def setItem_def)

lemma sodaFetch_env:
  "snd (sodaFetch server env params)
     = env \<lparr> clock := clock env + snd (server (clock env) params), sent := sent env @ [params] \<rparr>"
  by (simp add: sodaFetch_def Let_def)

lemma fetchProfiles_hit:
  "getCache env (cacheKey opts) = Some v \<Longrightarrow> fetchProfiles server synth loaded env opts = (Inr v, env)"
  by (simp add: fetchProfiles_def)

lemma fetchProfiles_miss_sent:
  "getCache env (cacheKey opts) = None \<Longrightarrow>
     sent (snd (fetchProfiles server synth loaded env opts)) = sent env @ [query_params opts]"
  by (simp add: fetchProfiles_def Let_def sodaFetch_env split: sum.splits option.splits)

lemma fetchProfiles_returns:
  "\<exists>ps. fst (fetchProfiles server synth loaded env opts) = Inr ps"
  by (simp add: fetchProfiles_def Let_def split: sum.splits option.splits)

lemma fetchProfiles_miss_result:
  assumes "getCache env (cacheKey opts) = None" "getCache env' (cacheKey opts) = None"
    "clock env' = clock env"
  shows "fst (fetchProfiles server synth loaded env' opts)
     = fst (fetchProfiles server synth loaded env opts)"
  using assms
  by (simp add: fetchProfiles_def Let_def sodaFetch_def split: sum.splits option.splits response.splits)

lemma fetchProfiles_rejected:
  assumes "getCache env (cacheKey opts) = None"
    "fst (server (clock env) (query_params opts)) = Rejected"
  shows "fetchProfiles server synth loaded env opts
     = (Inr (SAMPLE_PROFILES loaded),
        env \<lparr> clock := clock env + snd (server (clock env) (query_params opts)),
              sent := sent env @ [query_params opts] \<rparr>)"
  using assms by (simp add: fetchProfiles_def Let_def sodaFetch_def)

lemma SAMPLE_nonempty: "SAMPLE_PROFILES loaded \<noteq> []"
  by (simp add: SAMPLE_PROFILES_def)

lemma fetchProfiles_empty:
  assumes "getCache env (cacheKey opts) = None"
    "fst (server (clock env) (query_params opts)) = Body_other
     \<or> fst (server (clock env) (query_params opts)) = Body_rows []"
  shows "fetchProfiles server synth loaded env opts
     = (Inr (SAMPLE_PROFILES loaded),
        setCache (env \<lparr> clock := clock env + snd (server (clock env) (query_params opts)),
                       sent := sent env @ [query_params opts] \<rparr>)
          (cacheKey opts) (SAMPLE_PROFILES loaded))"
  using assms by (auto simp: fetchProfiles_def Let_def sodaFetch_def)

lemma getCache_mono:
  assumes "getCache env key = None" "items env' = items env" "can_read env' = can_read env"
    "clock env \<le> clock env'"
  shows "getCache env' key = None"
  using assms
  by (auto simp: getCache_def getItem_def JSON_parse_def split: if_splits option.splits stored.splits)

text \<open>
  Claim C5. For every filter argument, every state of the cache and every behaviour of
  the network, the promise of \<open>fetchProfiles\<close> settles with a list (never a rejection);
  and when the cache has no valid entry and the network call fails, or yields no rows
  (an empty array, or a value that is no array), that list is \<open>SAMPLE_PROFILES\<close>.
\<close>

theorem fetchProfiles_never_throws:
  "(\<exists>ps. fst (fetchProfiles server synth loaded env opts) = Inr ps)
   \<and> (getCache env (cacheKey opts) = None
        \<and> fst (server (clock env) (query_params opts)) \<in> {Rejected, Body_other, Body_rows []}
      \<longrightarrow> fst (fetchProfiles server synth loaded env opts) = Inr (SAMPLE_PROFILES loaded))"
proof (intro conjI impI)
  show "\<exists>ps. fst (fetchProfiles server synth loaded env opts) = Inr ps"
    by (rule fetchProfiles_returns)
next
  assume a: "getCache env (cacheKey opts) = None
        \<and> fst (server (clock env) (query_params opts)) \<in> {Rejected, Body_other, Body_rows []}"
  then consider "fst (server (clock env) (query_params opts)) = Rejected"
    | "fst (server (clock env) (query_params opts)) = Body_other
       \<or> fst (server (clock env) (query_params opts)) = Body_rows []"
    by auto
  then show "fst (fetchProfiles server synth loaded env opts) = Inr (SAMPLE_PROFILES loaded)"
  proof cases
    case 1
    with a show ?thesis by (simp add: fetchProfiles_rejected)
  next
    case 2
    with a show ?thesis by (simp add: fetchProfiles_empty)
  qed
qed

theorem fetchProfiles_never_throws_witness:
  "getCache empty_env (cacheKey no_opts) = None
   \<and> fst (failing_server (clock empty_env) (query_params no_opts)) \<in> {Rejected, Body_other, Body_rows []}
   \<and> fst (fetchProfiles failing_server no_synth example_loaded empty_env no_opts)
       = Inr (SAMPLE_PROFILES example_loaded)"
  using fetchProfiles_never_throws [of failing_server no_synth example_loaded empty_env no_opts]
  by (simp add: getCache_absent empty_env_def failing_server_def)

text \<open>
  Claim C6. Let the storage be readable and hold an entry under the filter's cache key.
  If the entry is older than one hour, \<open>getCache\<close> gives \<^verbatim>\<open>null\<close> and the call behaves as
  on a miss: it sends a network request, and it returns what it would return with the
  entry erased. If the entry is not older than one hour, the call returns the cached list
  and leaves the surroundings untouched: no request is sent.
\<close>

theorem cache_entry_time_to_live:
  assumes "can_read env" "items env (cacheKey opts) = Some (Entry t v)"
  shows "(clock env - t > ONE_HOUR_MS \<longrightarrow>
            getCache env (cacheKey opts) = None
          \<and> sent (snd (fetchProfiles server synth loaded env opts)) = sent env @ [query_params opts]
          \<and> fst (fetchProfiles server synth loaded env opts)
              = fst (fetchProfiles server synth loaded
                       (env \<lparr> items := (items env)(cacheKey opts := None) \<rparr>) opts))
     \<and> (clock env - t \<le> ONE_HOUR_MS \<longrightarrow>
            fetchProfiles server synth loaded env opts = (Inr v, env))"
proof (intro conjI impI)
  assume old: "clock env - t > ONE_HOUR_MS"
  with assms(2) show miss: "getCache env (cacheKey opts) = None"
    by (rule getCache_stale)
  then show "sent (snd (fetchProfiles server synth loaded env opts)) = sent env @ [query_params opts]"
    by (rule fetchProfiles_miss_sent)
  let ?erased = "env \<lparr> items := (items env)(cacheKey opts := None) \<rparr>"
  have "getCache ?erased (cacheKey opts) = None"
    by (simp add: getCache_absent)
  moreover have "clock ?erased = clock env"
    by simp
  ultimately have "fst (fetchProfiles server synth loaded ?erased opts)
      = fst (fetchProfiles server synth loaded env opts)"
    by (rule fetchProfiles_miss_result [OF miss])
  then show "fst (fetchProfiles server synth loaded env opts)
      = fst (fetchProfiles server synth loaded ?erased opts)"
    by (rule sym)
next
  assume "clock env - t \<le> ONE_HOUR_MS"
  with assms have "getCache env (cacheKey opts) = Some v"
    by (rule getCache_fresh)
  then show "fetchProfiles server synth loaded env opts = (Inr v, env)"
    by (rule fetchProfiles_hit)
qed

theorem cache_entry_time_to_live_witness:
  "can_read (cached_env 3600001)
   \<and> items (cached_env 3600001) (cacheKey no_opts) = Some (Entry 0 [bare_profile])
   \<and> clock (cached_env 3600001) - 0 > ONE_HOUR_MS
   \<and> getCache (cached_env 3600001) (cacheKey no_opts) = None
   \<and> sent (snd (fetchProfiles failing_server no_synth example_loaded (cached_env 3600001) no_opts))
       = sent (cached_env 3600001) @ [query_params no_opts]
   \<and> can_read (cached_env 3600000)
   \<and> items (cached_env 3600000) (cacheKey no_opts) = Some (Entry 0 [bare_profile])
   \<and> clock (cached_env 3600000) - 0 \<le> ONE_HOUR_MS
   \<and> fetchProfiles failing_server no_synth example_loaded (cached_env 3600000) no_opts
       = (Inr [bare_profile], cached_env 3600000)"
  using cache_entry_time_to_live [of "cached_env 3600001" no_opts 0 "[bare_profile]" failing_server no_synth example_loaded]
    cache_entry_time_to_live [of "cached_env 3600000" no_opts 0 "[bare_profile]" failing_server no_synth example_loaded]
  by (simp add: cached_env_def empty_env_def ONE_HOUR_MS_def)

text \<open>
  Claim C9. Let a call miss the cache. If the network answers with no rows and the
  storage can be read and written, the call returns the samples and stores them under the
  filter's key, stamped with the time of the answer, and a later call with the same filter
  up to one hour after that returns the samples without sending a request. If the network
  call fails, the call returns the samples and leaves the stored items untouched, and a
  later call with the same filter (the clock not set back) sends a network request again.
  The later call may meet any network \<open>server'\<close> and mapper \<open>synth'\<close>.
\<close>

theorem fallback_paths_differ_in_caching:
  assumes miss: "getCache env (cacheKey opts) = None"
  shows
   "((fst (server (clock env) (query_params opts)) = Body_other
       \<or> fst (server (clock env) (query_params opts)) = Body_rows [])
      \<and> can_read env \<and> can_write env \<longrightarrow>
       (let first = fetchProfiles server synth loaded env opts
        in fst first = Inr (SAMPLE_PROFILES loaded)
         \<and> items (snd first) (cacheKey opts)
             = Some (Entry (clock (snd first)) (SAMPLE_PROFILES loaded))
         \<and> (\<forall>dt \<le> ONE_HOUR_MS.
               fetchProfiles server' synth' loaded
                 ((snd first) \<lparr> clock := clock (snd first) + dt \<rparr>) opts
               = (Inr (SAMPLE_PROFILES loaded),
                  (snd first) \<lparr> clock := clock (snd first) + dt \<rparr>))))
    \<and> (fst (server (clock env) (query_params opts)) = Rejected \<longrightarrow>
       (let first = fetchProfiles server synth loaded env opts
        in fst first = Inr (SAMPLE_PROFILES loaded)
         \<and> items (snd first) = items env
         \<and> (\<forall>dt. 0 \<le> snd (server (clock env) (query_params opts)) + dt \<longrightarrow>
               sent (snd (fetchProfiles server' synth' loaded
                            ((snd first) \<lparr> clock := clock (snd first) + dt \<rparr>) opts))
               = sent (snd first) @ [query_params opts])))"
proof (intro conjI impI)
  let ?answer = "server (clock env) (query_params opts)"
  let ?env1 = "env \<lparr> clock := clock env + snd ?answer, sent := sent env @ [query_params opts] \<rparr>"
  assume a: "(fst ?answer = Body_other \<or> fst ?answer = Body_rows []) \<and> can_read env \<and> can_write env"
  then have first: "fetchProfiles server synth loaded env opts
      = (Inr (SAMPLE_PROFILES loaded), setCache ?env1 (cacheKey opts) (SAMPLE_PROFILES loaded))"
    using miss by (simp add: fetchProfiles_empty)
  let ?env2 = "setCache ?env1 (cacheKey opts) (SAMPLE_PROFILES loaded)"
  from a have stored: "items ?env2 (cacheKey opts) = Some (Entry (clock ?env2) (SAMPLE_PROFILES loaded))"
    and r: "can_read ?env2"
    by (simp_all add: setCache_def setItem_def)
  have again: "fetchProfiles server' synth' loaded (?env2 \<lparr> clock := clock ?env2 + dt \<rparr>) opts
      = (Inr (SAMPLE_PROFILES loaded), ?env2 \<lparr> clock := clock ?env2 + dt \<rparr>)"
    if "dt \<le> ONE_HOUR_MS" for dt
  proof -
    let ?env3 = "?env2 \<lparr> clock := clock ?env2 + dt \<rparr>"
    from r have "can_read ?env3" by simp
    moreover from stored
    have "items ?env3 (cacheKey opts) = Some (Entry (clock ?env2) (SAMPLE_PROFILES loaded))"
      by simp
    moreover from that have "clock ?env3 - clock ?env2 \<le> ONE_HOUR_MS" by simp
    ultimately have "getCache ?env3 (cacheKey opts) = Some (SAMPLE_PROFILES loaded)"
      by (rule getCache_fresh)
    then show ?thesis by (rule fetchProfiles_hit)
  qed
  from stored again show "let first = fetchProfiles server synth loaded env opts
        in fst first = Inr (SAMPLE_PROFILES loaded)
         \<and> items (snd first) (cacheKey opts)
             = Some (Entry (clock (snd first)) (SAMPLE_PROFILES loaded))
         \<and> (\<forall>dt \<le> ONE_HOUR_MS.
               fetchProfiles server' synth' loaded
                 ((snd first) \<lparr> clock := clock (snd first) + dt \<rparr>) opts
               = (Inr (SAMPLE_PROFILES loaded),
                  (snd first) \<lparr> clock := clock (snd first) + dt \<rparr>))"
    unfolding first Let_def fst_conv snd_conv by blast
next
  let ?answer = "server (clock env) (query_params opts)"
  let ?env1 = "env \<lparr> clock := clock env + snd ?answer, sent := sent env @ [query_params opts] \<rparr>"
  assume a: "fst ?answer = Rejected"
  with miss have first: "fetchProfiles server synth loaded env opts
      = (Inr (SAMPLE_PROFILES loaded), ?env1)"
    by (rule fetchProfiles_rejected)
  have again: "sent (snd (fetchProfiles server' synth' loaded
        (?env1 \<lparr> clock := clock ?env1 + dt \<rparr>) opts)) = sent ?env1 @ [query_params opts]"
    if "0 \<le> snd ?answer + dt" for dt
  proof -
    let ?env3 = "?env1 \<lparr> clock := clock ?env1 + dt \<rparr>"
    have "getCache ?env3 (cacheKey opts) = None"
    proof (rule getCache_mono [OF miss])
      show "items ?env3 = items env" by simp
      show "can_read ?env3 = can_read env" by simp
      from that show "clock env \<le> clock ?env3" by simp
    qed
    then have "sent (snd (fetchProfiles server' synth' loaded ?env3 opts))
        = sent ?env3 @ [query_params opts]"
      by (rule fetchProfiles_miss_sent)
    then show ?thesis by simp
  qed
  have "items ?env1 = items env" by simp
  with again show "let first = fetchProfiles server synth loaded env opts
        in fst first = Inr (SAMPLE_PROFILES loaded)
         \<and> items (snd first) = items env
         \<and> (\<forall>dt. 0 \<le> snd (server (clock env) (query_params opts)) + dt \<longrightarrow>
               sent (snd (fetchProfiles server' synth' loaded
                            ((snd first) \<lparr> clock := clock (snd first) + dt \<rparr>) opts))
               = sent (snd first) @ [query_params opts])"
    unfolding first Let_def fst_conv snd_conv by blast
qed

theorem fallback_paths_differ_in_caching_witness:
  "getCache empty_env (cacheKey no_opts) = None
   \<and> fst (empty_server (clock empty_env) (query_params no_opts)) = Body_rows []
   \<and> can_read empty_env \<and> can_write empty_env
   \<and> fst (fetchProfiles empty_server no_synth example_loaded empty_env no_opts) = Inr (SAMPLE_PROFILES example_loaded)
   \<and> (1000::int) \<le> ONE_HOUR_MS
   \<and> sent (snd (fetchProfiles failing_server no_synth example_loaded
         ((snd (fetchProfiles empty_server no_synth example_loaded empty_env no_opts))
            \<lparr> clock := clock (snd (fetchProfiles empty_server no_synth example_loaded empty_env no_opts)) + 1000 \<rparr>)
         no_opts))
       = [query_params no_opts]
   \<and> fst (failing_server (clock empty_env) (query_params no_opts)) = Rejected
   \<and> fst (fetchProfiles failing_server no_synth example_loaded empty_env no_opts) = Inr (SAMPLE_PROFILES example_loaded)
   \<and> (0::int) \<le> snd (failing_server (clock empty_env) (query_params no_opts)) + 1000
   \<and> sent (snd (fetchProfiles failing_server no_synth example_loaded
         ((snd (fetchProfiles failing_server no_synth example_loaded empty_env no_opts))
            \<lparr> clock := clock (snd (fetchProfiles failing_server no_synth example_loaded empty_env no_opts)) + 1000 \<rparr>)
         no_opts))
       = [query_params no_opts, query_params no_opts]"
proof -
  have miss: "getCache empty_env (cacheKey no_opts) = None"
    by (simp add: getCache_absent empty_env_def)
  have e: "fst (empty_server (clock empty_env) (query_params no_opts)) = Body_rows []"
    "can_read empty_env" "can_write empty_env" "(1000::int) \<le> ONE_HOUR_MS"
    by (simp_all add: empty_server_def empty_env_def ONE_HOUR_MS_def)
  have f: "fst (failing_server (clock empty_env) (query_params no_opts)) = Rejected"
    "(0::int) \<le> snd (failing_server (clock empty_env) (query_params no_opts)) + 1000"
    by (simp_all add: failing_server_def)
  have s1: "sent (snd (fetchProfiles empty_server no_synth example_loaded empty_env no_opts)) = [query_params no_opts]"
    using fetchProfiles_miss_sent [OF miss, of empty_server no_synth example_loaded]
    by (simp add: empty_env_def)
  have s2: "sent (snd (fetchProfiles failing_server no_synth example_loaded empty_env no_opts)) = [query_params no_opts]"
    using fetchProfiles_miss_sent [OF miss, of failing_server no_synth example_loaded]
    by (simp add: empty_env_def)
  from fallback_paths_differ_in_caching [OF miss, of empty_server no_synth example_loaded failing_server no_synth] e
  have a: "fst (fetchProfiles empty_server no_synth example_loaded empty_env no_opts) = Inr (SAMPLE_PROFILES example_loaded)"
    "sent (snd (fetchProfiles failing_server no_synth example_loaded
         ((snd (fetchProfiles empty_server no_synth example_loaded empty_env no_opts))
            \<lparr> clock := clock (snd (fetchProfiles empty_server no_synth example_loaded empty_env no_opts)) + 1000 \<rparr>)
         no_opts))
       = [query_params no_opts]"
    by (simp_all add: Let_def s1)
  from fallback_paths_differ_in_caching [OF miss, of failing_server no_synth example_loaded failing_server no_synth] f
  have b: "fst (fetchProfiles failing_server no_synth example_loaded empty_env no_opts) = Inr (SAMPLE_PROFILES example_loaded)"
    "sent (snd (fetchProfiles failing_server no_synth example_loaded
         ((snd (fetchProfiles failing_server no_synth example_loaded empty_env no_opts))
            \<lparr> clock := clock (snd (fetchProfiles failing_server no_synth example_loaded empty_env no_opts)) + 1000 \<rparr>)
         no_opts))
       = [query_params no_opts, query_params no_opts]"
    by (simp_all add: Let_def s2)
  from miss e f a b show ?thesis by simp
qed

end
